theory Spec2Isabelle
  imports Complex_Main "HOL-Library.Word"
begin

section \<open>Data model of the MatMul CPU kernel\<close>

text \<open>
  The development embeds \<^verbatim>\<open>onnxruntime/core/providers/cpu/math/matmul.cc\<close>:
  the generic \<^verbatim>\<open>MatMul<T>::Compute\<close>, and the three members of the
  specialisation \<^verbatim>\<open>MatMul<float>\<close> (\<^verbatim>\<open>PrePack\<close>,
  \<^verbatim>\<open>UseCachedPrePackedWeight\<close>, \<^verbatim>\<open>Compute\<close>). Calls into collaborators
  (the kernel context, the shape helper, the GEMM routines) are recorded as events, in
  program order, so that what a run asks of its collaborators can be stated and proved.
\<close>

subsection \<open>Shapes, pointers, tensors\<close>

text \<open>A \<^verbatim>\<open>TensorShape\<close> is a sequence of 64-bit dimension sizes.\<close>

type_synonym shape = "int list"

definition NumDimensions :: "shape \<Rightarrow> nat" where
  "NumDimensions s = length s"

text \<open>
  Modelled from the spec: \<^verbatim>\<open>TensorShape::Size\<close> is declared outside this file;
  the spec calls it the element count of the shape, the product of its dimensions.
\<close>

definition Size :: "shape \<Rightarrow> int" where
  "Size s = prod_list s"

text \<open>
  Memory is a family of disjoint regions, addressed in elements. A pointer is either null
  or an element position in a region; adding an offset moves inside the region, and an
  invalid (null) pointer stays invalid.
\<close>

datatype region = Tensor_Buffer nat | Heap_Buffer nat

datatype pointer = Null | Ptr region nat

fun ptr_add :: "pointer \<Rightarrow> nat \<Rightarrow> pointer" where
  "ptr_add Null n = Null"
| "ptr_add (Ptr r i) n = Ptr r (i + n)"

record Tensor =
  Shape :: shape
  Data :: pointer

type_synonym allocator = nat
type_synonym thread_pool = nat

text \<open>
  \<^verbatim>\<open>BufferUniquePtr\<close> is a \<^verbatim>\<open>std::unique_ptr<void, BufferDeleter>\<close>: the held
  address and the allocator its deleter returns the memory to. \<^verbatim>\<open>BufferDeleter(nullptr)\<close>
  is the deleter \<open>None\<close>. A pointer that has been moved from holds \<open>Null\<close>.
\<close>

record BufferUniquePtr =
  get :: pointer
  deleter :: "allocator option"

definition moved_from :: "BufferUniquePtr \<Rightarrow> BufferUniquePtr" where
  "moved_from p = p\<lparr>get := Null\<rparr>"

text \<open>
  Modelled from the spec: the deleter's call operator is declared outside this file. The
  spec says that destroying a borrowed buffer is a no-op on the shared memory; an owned
  buffer goes back to its allocator. The result is the deallocation that destroying the
  pointer performs, if any.
\<close>

definition destroy :: "BufferUniquePtr \<Rightarrow> (allocator \<times> pointer) option" where
  "destroy p = (case deleter p of
                  None \<Rightarrow> None
                | Some al \<Rightarrow> (if get p = Null then None else Some (al, get p)))"

record PrepackedWeight =
  buffers :: "BufferUniquePtr list"
  shapes :: "shape list"
  weights_sizes :: "64 word list"
  is_filled :: bool

text \<open>The data members of \<^verbatim>\<open>MatMul<float>\<close>.\<close>

record MatMul_float =
  trans_a_attr :: bool
  trans_b_attr :: bool
  alpha_attr :: real
  packed_b :: BufferUniquePtr
  b_shape :: shape

text \<open>
  What a kernel sees of its \<^verbatim>\<open>OpKernelContext\<close>: the input tensors (an input may be
  absent, a null \<^verbatim>\<open>Tensor*\<close>), the buffer the context allocates for output 0, and the
  operator thread pool.
\<close>

record OpKernelContext =
  Input :: "nat \<Rightarrow> Tensor option"
  Output_Data :: pointer
  OperatorThreadPool :: thread_pool

subsection \<open>Collaborators\<close>

text \<open>
  \<^verbatim>\<open>MatMulComputeHelper\<close> lives in \<^verbatim>\<open>matmul_helper.h\<close>. Its result is what the
  kernel reads back from it: the matrix sizes (64-bit), the output shape and the three
  offset tables. The helper itself is a parameter \<open>helper_Compute\<close> of the kernel
  functions below.
\<close>

record MatMulComputeHelper =
  helper_M :: "64 word"
  helper_N :: "64 word"
  helper_K :: "64 word"
  OutputShape :: shape
  LeftOffsets :: "nat list"
  RightOffsets :: "nat list"
  OutputOffsets :: "nat list"

text \<open>
  Errors. The first four are the \<^verbatim>\<open>Status\<close> kinds of section 7 of the spec, which
  a helper may return; the last two stand for undefined behaviour of the C++ code: dereferencing a
  null tensor pointer, and indexing a \<^verbatim>\<open>std::vector\<close> past its end.
\<close>

datatype error =
    ShapeMismatch
  | BroadcastIncompatible
  | UnsupportedType
  | AllocationFailure
  | Null_Dereference
  | Out_Of_Bounds

type_synonym helper_fn =
  "shape \<Rightarrow> shape \<Rightarrow> bool \<Rightarrow> bool \<Rightarrow> error + MatMulComputeHelper"

datatype CBLAS_TRANSPOSE = CblasNoTrans | CblasTrans

record MLAS_SGEMM_DATA_PARAMS =
  gemm_A :: pointer
  gemm_lda :: "64 word"
  gemm_B :: pointer
  gemm_ldb :: "64 word"
  gemm_C :: pointer
  gemm_ldc :: "64 word"
  gemm_alpha :: real
  gemm_beta :: real
  gemm_BIsPacked :: bool

text \<open>The calls a kernel makes, with their arguments.\<close>

datatype event =
    Input_Tensor nat
  | Helper_Compute shape shape bool bool
  | Output_Tensor nat shape
  | math_MatMul "32 word" "32 word" "32 word" pointer pointer pointer thread_pool
  | MlasGemmBatch CBLAS_TRANSPOSE CBLAS_TRANSPOSE "64 word" "64 word" "64 word"
      "MLAS_SGEMM_DATA_PARAMS list" nat thread_pool

type_synonym run = "event list \<times> (error + unit)"

text \<open>
  Modelled from the spec: \<^verbatim>\<open>GemmPackBFp32\<close> is defined in
  \<^verbatim>\<open>gemm_matmul_common.h\<close>. By section 6 of the spec the pack primitive takes the
  allocator, the raw matrix tensor and the transpose flag, and either declines (\<open>None\<close>)
  or yields a packed buffer and the recorded shape. The buffer is a fresh heap buffer,
  given by its number, and is owned through the allocator that was passed in.
\<close>

type_synonym pack_fn = "allocator \<Rightarrow> Tensor \<Rightarrow> bool \<Rightarrow> (nat \<times> shape) option"

text \<open>
  The call \<^verbatim>\<open>GemmPackBFp32(alloc, tensor, trans_b_attr_, packed_b_, b_shape_)\<close>: the
  last two arguments are references to the members, written on success.
\<close>

definition call_GemmPackBFp32 ::
  "pack_fn \<Rightarrow> allocator \<Rightarrow> Tensor \<Rightarrow> MatMul_float \<Rightarrow> bool \<times> MatMul_float" where
  "call_GemmPackBFp32 GemmPackBFp32 alloc tensor this =
     (case GemmPackBFp32 alloc tensor (trans_b_attr this) of
        None \<Rightarrow> (False, this)
      | Some (h, shp) \<Rightarrow>
          (True, this\<lparr>packed_b := \<lparr>get = Ptr (Heap_Buffer h) 0, deleter = Some alloc\<rparr>,
                      b_shape := shp\<rparr>))"

section \<open>The specialisation for float\<close>

subsection \<open>PrePack\<close>

text \<open>
  The result is the status (always \<open>Inr\<close> when the function returns
  \<^verbatim>\<open>Status::OK()\<close>) with the kernel after the call, the out-parameter
  \<^verbatim>\<open>is_packed\<close> and the caching record after the call (\<open>None\<close> is the null pointer).
\<close>

definition PrePack ::
  "pack_fn \<Rightarrow> MatMul_float \<Rightarrow> Tensor \<Rightarrow> int \<Rightarrow> PrepackedWeight option \<Rightarrow> allocator
     \<Rightarrow> error + (MatMul_float \<times> bool \<times> PrepackedWeight option)" where
  "PrePack GemmPackBFp32 this tensor input_idx prepacked_weight_for_caching alloc =
     (let kernel_owns_prepacked_buffer = (prepacked_weight_for_caching = None) in
      if input_idx = 1 then
        (let (is_packed, this1) = call_GemmPackBFp32 GemmPackBFp32 alloc tensor this in
         if is_packed \<and> \<not> kernel_owns_prepacked_buffer then
           (case prepacked_weight_for_caching of
              None \<Rightarrow> Inr (this1, is_packed, None)
            | Some w \<Rightarrow>
                (let w1 = w\<lparr>buffers := buffers w @ [packed_b this1]\<rparr>;
                     this2 = this1\<lparr>packed_b := moved_from (packed_b this1)\<rparr>;
                     w2 = w1\<lparr>shapes := shapes w1 @ [b_shape this2]\<rparr>;
                     w3 = w2\<lparr>weights_sizes :=
                               weights_sizes w2 @ [word_of_int (Size (b_shape this2))]\<rparr>;
                     w4 = w3\<lparr>is_filled := True\<rparr>;
                     this3 = this2\<lparr>packed_b :=
                               \<lparr>get = get (buffers w4 ! 0), deleter = None\<rparr>\<rparr>
                 in Inr (this3, is_packed, Some w4)))
         else Inr (this1, is_packed, prepacked_weight_for_caching))
      else Inr (this, False, prepacked_weight_for_caching))"

subsection \<open>UseCachedPrePackedWeight\<close>

text \<open>
  The result is the kernel after the call with the out-parameter \<^verbatim>\<open>read_from_cache\<close>.
  The cached record is passed by const reference; \<^verbatim>\<open>buffers_[0]\<close> and
  \<^verbatim>\<open>shapes_[0]\<close> are read without a check, which is out of bounds on an empty vector.
\<close>

definition UseCachedPrePackedWeight ::
  "MatMul_float \<Rightarrow> PrepackedWeight \<Rightarrow> int \<Rightarrow> error + (MatMul_float \<times> bool)" where
  "UseCachedPrePackedWeight this cached_prepacked_weight input_idx =
     (if input_idx = 1 then
        (case buffers cached_prepacked_weight of
           [] \<Rightarrow> Inl Out_Of_Bounds
         | buf0 # _ \<Rightarrow>
             (case shapes cached_prepacked_weight of
                [] \<Rightarrow> Inl Out_Of_Bounds
              | shp0 # _ \<Rightarrow>
                  Inr (this\<lparr>packed_b := \<lparr>get = get buf0, deleter = None\<rparr>,
                             b_shape := shp0\<rparr>, True)))
      else Inr (this, False))"

subsection \<open>Compute\<close>

text \<open>
  The loop that fills \<^verbatim>\<open>data[i]\<close> for \<open>i\<close> in the given index list. Reading
  \<^verbatim>\<open>LeftOffsets()[i]\<close>, \<^verbatim>\<open>RightOffsets()[i]\<close> (only evaluated when B is not packed) or
  \<^verbatim>\<open>OutputOffsets()[i]\<close> past the end of the table is undefined behaviour.
\<close>

fun fill_data ::
  "MatMul_float \<Rightarrow> MatMulComputeHelper \<Rightarrow> pointer \<Rightarrow> pointer \<Rightarrow> pointer
     \<Rightarrow> 64 word \<Rightarrow> 64 word \<Rightarrow> 64 word \<Rightarrow> nat list
     \<Rightarrow> error + MLAS_SGEMM_DATA_PARAMS list" where
  "fill_data this helper a_data b_data y_data lda ldb N [] = Inr []"
| "fill_data this helper a_data b_data y_data lda ldb N (i # rest) =
     (let BIsPacked = (get (packed_b this) \<noteq> Null) in
      if i < length (LeftOffsets helper)
         \<and> (BIsPacked \<or> i < length (RightOffsets helper))
         \<and> i < length (OutputOffsets helper)
      then
        (let d = \<lparr>gemm_A = ptr_add a_data (LeftOffsets helper ! i),
                  gemm_lda = lda,
                  gemm_B = (if BIsPacked then get (packed_b this)
                            else ptr_add b_data (RightOffsets helper ! i)),
                  gemm_ldb = ldb,
                  gemm_C = ptr_add y_data (OutputOffsets helper ! i),
                  gemm_ldc = N,
                  gemm_alpha = alpha_attr this,
                  gemm_beta = 0,
                  gemm_BIsPacked = BIsPacked\<rparr>
         in case fill_data this helper a_data b_data y_data lda ldb N rest of
              Inl e \<Rightarrow> Inl e
            | Inr ds \<Rightarrow> Inr (d # ds))
      else Inl Out_Of_Bounds)"

text \<open>
  \<^verbatim>\<open>static_cast<int>\<close> of a 64-bit size followed by the conversion back to
  \<^verbatim>\<open>size_t\<close>: the low 32 bits, sign-extended.
\<close>

definition int_to_size_t :: "64 word \<Rightarrow> 64 word" where
  "int_to_size_t x = scast (ucast x :: 32 word)"

text \<open>
  Lines 168 and 169: the raw B tensor is fetched only when no packed buffer is held, and
  the B shape is the raw tensor's when it was fetched and the recorded one otherwise.
\<close>

definition raw_B :: "MatMul_float \<Rightarrow> OpKernelContext \<Rightarrow> Tensor option" where
  "raw_B this ctx = (if get (packed_b this) \<noteq> Null then None else Input ctx 1)"

definition B_shape :: "MatMul_float \<Rightarrow> OpKernelContext \<Rightarrow> shape" where
  "B_shape this ctx = (case raw_B this ctx of Some bt \<Rightarrow> Shape bt | None \<Rightarrow> b_shape this)"

text \<open>
  Lines 172 and 173 (``match CUDA kernel implementation, ignore transpose for vectors''):
  the transpose flags that are in effect for the rest of the call.
\<close>

definition trans_a :: "MatMul_float \<Rightarrow> Tensor \<Rightarrow> bool" where
  "trans_a this a = (trans_a_attr this \<and> NumDimensions (Shape a) \<noteq> 1)"

definition trans_b :: "MatMul_float \<Rightarrow> OpKernelContext \<Rightarrow> bool" where
  "trans_b this ctx = (trans_b_attr this \<and> NumDimensions (B_shape this ctx) \<noteq> 1)"

definition Compute_float :: "helper_fn \<Rightarrow> MatMul_float \<Rightarrow> OpKernelContext \<Rightarrow> run" where
  "Compute_float helper_Compute this ctx =
     (let thread_pool = OperatorThreadPool ctx;
          inputs = Input_Tensor 0 # (if get (packed_b this) \<noteq> Null then [] else [Input_Tensor 1])
      in case Input ctx 0 of
           None \<Rightarrow> (inputs, Inl Null_Dereference)
         | Some a \<Rightarrow>
             (let b = raw_B this ctx;
                  b_shape = B_shape this ctx;
                  resolve = inputs @ [Helper_Compute (Shape a) b_shape (trans_a this a)
                                        (trans_b this ctx)]
              in case helper_Compute (Shape a) b_shape (trans_a this a) (trans_b this ctx) of
                   Inl e \<Rightarrow> (resolve, Inl e)
                 | Inr helper \<Rightarrow>
                     (let y = \<lparr>Shape = OutputShape helper, Data = Output_Data ctx\<rparr>;
                          alloc_y = resolve @ [Output_Tensor 0 (OutputShape helper)]
                      in if Size (Shape y) = 0 then (alloc_y, Inr ())
                         else
                           (let a_data = Data a;
                                b_data = (case b of Some bt \<Rightarrow> Data bt | None \<Rightarrow> Null);
                                y_data = Data y;
                                max_len = length (OutputOffsets helper);
                                M = helper_M helper;
                                N = helper_N helper;
                                K = helper_K helper;
                                lda = int_to_size_t (if trans_a this a then M else K);
                                ldb = int_to_size_t (if trans_b this ctx then K else N)
                            in case fill_data this helper a_data b_data y_data lda ldb N
                                      [0..<max_len] of
                                 Inl e \<Rightarrow> (alloc_y, Inl e)
                               | Inr data \<Rightarrow>
                                   (alloc_y @
                                      [MlasGemmBatch
                                         (if trans_a this a then CblasTrans else CblasNoTrans)
                                         (if trans_b this ctx then CblasTrans else CblasNoTrans)
                                         M N K data max_len thread_pool],
                                    Inr ())))))"

section \<open>The generic kernel\<close>

text \<open>
  The loop of \<^verbatim>\<open>MatMul<T>::Compute\<close>: one call of \<^verbatim>\<open>math::MatMul<T>\<close> per
  batch, each issued before the next offsets are read.
\<close>

fun matmul_loop ::
  "MatMulComputeHelper \<Rightarrow> pointer \<Rightarrow> pointer \<Rightarrow> pointer \<Rightarrow> thread_pool \<Rightarrow> nat list \<Rightarrow> run" where
  "matmul_loop helper a_data b_data y_data thread_pool [] = ([], Inr ())"
| "matmul_loop helper a_data b_data y_data thread_pool (i # rest) =
     (if i < length (LeftOffsets helper) \<and> i < length (RightOffsets helper)
         \<and> i < length (OutputOffsets helper)
      then
        (let call = math_MatMul (ucast (helper_M helper)) (ucast (helper_N helper))
                      (ucast (helper_K helper))
                      (ptr_add a_data (LeftOffsets helper ! i))
                      (ptr_add b_data (RightOffsets helper ! i))
                      (ptr_add y_data (OutputOffsets helper ! i))
                      thread_pool;
             (calls, status) = matmul_loop helper a_data b_data y_data thread_pool rest
         in (call # calls, status))
      else ([], Inl Out_Of_Bounds))"

text \<open>
  \<^verbatim>\<open>MatMul<T>::Compute\<close>, lines 92 to 127. The helper is called with the two shapes
  only, which leaves both transpose flags at their default, false.
\<close>

definition Compute_generic :: "helper_fn \<Rightarrow> OpKernelContext \<Rightarrow> run" where
  "Compute_generic helper_Compute ctx =
     (let thread_pool = OperatorThreadPool ctx;
          inputs = [Input_Tensor 0, Input_Tensor 1]
      in case Input ctx 0 of
           None \<Rightarrow> (inputs, Inl Null_Dereference)
         | Some a \<Rightarrow>
             (case Input ctx 1 of
                None \<Rightarrow> (inputs, Inl Null_Dereference)
              | Some b \<Rightarrow>
                  (let resolve = inputs @ [Helper_Compute (Shape a) (Shape b) False False]
                   in case helper_Compute (Shape a) (Shape b) False False of
                        Inl e \<Rightarrow> (resolve, Inl e)
                      | Inr helper \<Rightarrow>
                          (let y = \<lparr>Shape = OutputShape helper, Data = Output_Data ctx\<rparr>;
                               alloc_y = resolve @ [Output_Tensor 0 (OutputShape helper)]
                           in if Size (Shape y) = 0 then (alloc_y, Inr ())
                              else
                                (let a_data = Data a;
                                     b_data = Data b;
                                     y_data = Data y;
                                     max_len = length (OutputOffsets helper);
                                     (calls, status) =
                                        matmul_loop helper a_data b_data y_data thread_pool
                                          [0..<max_len]
                                 in (alloc_y @ calls, status))))))"

section \<open>Kernel registration\<close>

text \<open>
  Lines 13 to 90 register one kernel class per operator version range and element type:
  \<^verbatim>\<open>MatMul<float>\<close>, \<^verbatim>\<open>MatMul<double>\<close>, \<^verbatim>\<open>MatMul<int32_t>\<close> (also serving
  \<^verbatim>\<open>uint32_t\<close>) and \<^verbatim>\<open>MatMul<int64_t>\<close> (also serving \<^verbatim>\<open>uint64_t\<close>). An entry
  is the first version, the last version (\<open>None\<close>: open-ended), the tensor element types
  of the constraint \<^verbatim>\<open>T\<close>, and the template argument of the kernel class.
\<close>

datatype element_type = float32 | float64 | int32 | uint32 | int64 | uint64

datatype template_arg = T_float | T_double | T_int32_t | T_int64_t

definition registrations ::
  "(nat \<times> nat option \<times> element_type list \<times> template_arg) list" where
  "registrations =
     [(1, Some 8, [float32], T_float),
      (1, Some 8, [float64], T_double),
      (9, Some 12, [float32], T_float),
      (9, Some 12, [float64], T_double),
      (9, Some 12, [int32, uint32], T_int32_t),
      (9, Some 12, [int64, uint64], T_int64_t),
      (13, None, [float32], T_float),
      (13, None, [float64], T_double),
      (13, None, [int32, uint32], T_int32_t),
      (13, None, [int64, uint64], T_int64_t)]"

fun matches :: "nat \<Rightarrow> element_type \<Rightarrow> nat \<times> nat option \<times> element_type list \<times> template_arg \<Rightarrow> bool" where
  "matches version ty (since, until, tys, T) =
     (since \<le> version \<and> (case until of None \<Rightarrow> True | Some u \<Rightarrow> version \<le> u) \<and> ty \<in> set tys)"

definition kernel_class :: "nat \<Rightarrow> element_type \<Rightarrow> template_arg option" where
  "kernel_class version ty =
     (case filter (matches version ty) registrations of
        [] \<Rightarrow> None
      | (_, _, _, T) # _ \<Rightarrow> Some T)"

text \<open>
  \<^verbatim>\<open>Compute\<close> of the class \<^verbatim>\<open>MatMul<T>\<close>: the explicit specialisation (line 164)
  for \<^verbatim>\<open>float\<close>, the template body (lines 92 to 127) for every other argument. Only
  the specialisation has data members; the generic class has none to read.
\<close>

fun Compute :: "template_arg \<Rightarrow> helper_fn \<Rightarrow> MatMul_float \<Rightarrow> OpKernelContext \<Rightarrow> run" where
  "Compute T_float helper_Compute this ctx = Compute_float helper_Compute this ctx"
| "Compute T helper_Compute this ctx = Compute_generic helper_Compute ctx"

text \<open>
  \<^verbatim>\<open>Compute\<close> as the session reaches it for a tensor element type under an operator
  version; an element type without a registered kernel is refused.
\<close>

definition Compute_for ::
  "nat \<Rightarrow> element_type \<Rightarrow> helper_fn \<Rightarrow> MatMul_float \<Rightarrow> OpKernelContext \<Rightarrow> run" where
  "Compute_for version ty helper_Compute this ctx =
     (case kernel_class version ty of
        None \<Rightarrow> ([], Inl UnsupportedType)
      | Some T \<Rightarrow> Compute T helper_Compute this ctx)"

section \<open>What the GEMM routines do to memory\<close>

text \<open>
  Modelled from the spec: the batched GEMM primitive (\<^verbatim>\<open>MlasGemmBatch\<close>) and the
  plain matrix multiply (\<^verbatim>\<open>math::MatMul\<close>) are defined outside this file. By the
  glossary a GEMM computes \<open>C = \<alpha> A B + \<beta> C\<close>; by section 6 it writes the results in
  place, one descriptor after the other; a leading dimension is the stride between
  consecutive rows. Elements are idealised as real numbers. The layout of a packed B is
  implementation specific: it is a parameter \<open>layout\<close>, giving the position of the element
  \<open>(k, j)\<close> of a \<open>K \<times> N\<close> matrix inside the packed buffer. A descriptor with a null pointer
  has no defined effect (\<open>None\<close>).
\<close>

type_synonym memory = "region \<times> nat \<Rightarrow> real"

type_synonym packed_layout = "nat \<Rightarrow> nat \<Rightarrow> nat \<Rightarrow> nat \<Rightarrow> nat"

text \<open>
  Modelled from the spec: the cell of C that holds the element \<open>(i, j)\<close> (rows are
  \<open>ldc\<close> apart), the value \<open>\<alpha> (A B)\<^sub>i\<^sub>j + \<beta> C\<^sub>i\<^sub>j\<close> a GEMM stores there, read from the
  memory before the call, and the GEMM of one descriptor and of a batch of descriptors.
\<close>

definition c_cell :: "region \<Rightarrow> nat \<Rightarrow> nat \<Rightarrow> nat \<times> nat \<Rightarrow> region \<times> nat" where
  "c_cell rc c0 ldc p = (rc, c0 + fst p * ldc + snd p)"

definition gemm_value ::
  "packed_layout \<Rightarrow> CBLAS_TRANSPOSE \<Rightarrow> CBLAS_TRANSPOSE \<Rightarrow> nat \<Rightarrow> nat
     \<Rightarrow> MLAS_SGEMM_DATA_PARAMS \<Rightarrow> region \<times> nat \<Rightarrow> region \<times> nat \<Rightarrow> region \<times> nat
     \<Rightarrow> memory \<Rightarrow> nat \<times> nat \<Rightarrow> real" where
  "gemm_value layout TransA TransB K N d a b c mem p =
     (let i = fst p;
          j = snd p;
          lda = unat (gemm_lda d);
          ldb = unat (gemm_ldb d);
          ldc = unat (gemm_ldc d);
          a_at = (\<lambda>k. mem (fst a, snd a + (if TransA = CblasNoTrans then i * lda + k
                                             else k * lda + i)));
          b_at = (\<lambda>k. mem (fst b, snd b + (if gemm_BIsPacked d then layout K N k j
                                             else if TransB = CblasNoTrans then k * ldb + j
                                             else j * ldb + k)))
      in gemm_alpha d * sum_list (map (\<lambda>k. a_at k * b_at k) [0..<K])
           + gemm_beta d * mem (c_cell (fst c) (snd c) ldc p))"

definition gemm_one ::
  "packed_layout \<Rightarrow> CBLAS_TRANSPOSE \<Rightarrow> CBLAS_TRANSPOSE \<Rightarrow> nat \<Rightarrow> nat \<Rightarrow> nat
     \<Rightarrow> MLAS_SGEMM_DATA_PARAMS \<Rightarrow> memory \<Rightarrow> memory option" where
  "gemm_one layout TransA TransB M N K d mem =
     (case (gemm_A d, gemm_B d, gemm_C d) of
        (Ptr ra a0, Ptr rb b0, Ptr rc c0) \<Rightarrow>
          Some (fold (\<lambda>p m. m(c_cell rc c0 (unat (gemm_ldc d)) p :=
                                gemm_value layout TransA TransB K N d (ra, a0) (rb, b0) (rc, c0)
                                  mem p))
                  (List.product [0..<M] [0..<N]) mem)
      | _ \<Rightarrow> None)"

fun gemm_batch ::
  "packed_layout \<Rightarrow> CBLAS_TRANSPOSE \<Rightarrow> CBLAS_TRANSPOSE \<Rightarrow> nat \<Rightarrow> nat \<Rightarrow> nat
     \<Rightarrow> MLAS_SGEMM_DATA_PARAMS list \<Rightarrow> memory \<Rightarrow> memory option" where
  "gemm_batch layout TransA TransB M N K [] mem = Some mem"
| "gemm_batch layout TransA TransB M N K (d # ds) mem =
     (case gemm_one layout TransA TransB M N K d mem of
        None \<Rightarrow> None
      | Some mem' \<Rightarrow> gemm_batch layout TransA TransB M N K ds mem')"

text \<open>
  Modelled from the spec: the effect of each call of a run. \<^verbatim>\<open>MlasGemmBatch\<close> handles
  the first \<^verbatim>\<open>BatchN\<close> descriptors; \<^verbatim>\<open>math::MatMul\<close> is the plain product
  \<open>C = A B\<close> of row-major matrices (section 4.4: ``a plain per-batch matrix multiply'');
  the other calls leave memory alone.
\<close>

fun exec_event :: "packed_layout \<Rightarrow> event \<Rightarrow> memory \<Rightarrow> memory option" where
  "exec_event layout (MlasGemmBatch TransA TransB M N K data BatchN tp) mem =
     gemm_batch layout TransA TransB (unat M) (unat N) (unat K) (take BatchN data) mem"
| "exec_event layout (math_MatMul M N K a b y tp) mem =
     gemm_one layout CblasNoTrans CblasNoTrans (nat (sint M)) (nat (sint N)) (nat (sint K))
       \<lparr>gemm_A = a, gemm_lda = word_of_int (sint K),
        gemm_B = b, gemm_ldb = word_of_int (sint N),
        gemm_C = y, gemm_ldc = word_of_int (sint N),
        gemm_alpha = 1, gemm_beta = 0, gemm_BIsPacked = False\<rparr> mem"
| "exec_event layout _ mem = Some mem"

fun exec_events :: "packed_layout \<Rightarrow> event list \<Rightarrow> memory \<Rightarrow> memory option" where
  "exec_events layout [] mem = Some mem"
| "exec_events layout (e # es) mem =
     (case exec_event layout e mem of
        None \<Rightarrow> None
      | Some mem' \<Rightarrow> exec_events layout es mem')"

text \<open>Accessors on events, for stating what a run passes to its collaborators.\<close>

fun descriptors :: "event \<Rightarrow> MLAS_SGEMM_DATA_PARAMS list" where
  "descriptors (MlasGemmBatch TransA TransB M N K data BatchN tp) = data"
| "descriptors _ = []"

fun is_gemm_call :: "event \<Rightarrow> bool" where
  "is_gemm_call (MlasGemmBatch TransA TransB M N K data BatchN tp) = True"
| "is_gemm_call (math_MatMul M N K a b y tp) = True"
| "is_gemm_call _ = False"

fun passed_trans_a :: "event \<Rightarrow> bool option" where
  "passed_trans_a (Helper_Compute sa sb ta tb) = Some ta"
| "passed_trans_a (MlasGemmBatch TransA TransB M N K data BatchN tp) = Some (TransA = CblasTrans)"
| "passed_trans_a _ = None"

fun passed_trans_b :: "event \<Rightarrow> bool option" where
  "passed_trans_b (Helper_Compute sa sb ta tb) = Some tb"
| "passed_trans_b (MlasGemmBatch TransA TransB M N K data BatchN tp) = Some (TransB = CblasTrans)"
| "passed_trans_b _ = None"

text \<open>
  The region a pointer points into, and the cells of C that a GEMM on one descriptor
  stores to.
\<close>

fun region_of :: "pointer \<Rightarrow> region option" where
  "region_of Null = None"
| "region_of (Ptr r i) = Some r"

definition cells_written :: "nat \<Rightarrow> nat \<Rightarrow> MLAS_SGEMM_DATA_PARAMS \<Rightarrow> (region \<times> nat) set" where
  "cells_written M N d =
     (case gemm_C d of
        Null \<Rightarrow> {}
      | Ptr rc c0 \<Rightarrow> c_cell rc c0 (unat (gemm_ldc d)) ` set (List.product [0..<M] [0..<N]))"

text \<open>
  Modelled from the spec: what section 4.2 says of the output offsets of a helper result,
  and section 4.1 of the output shape. The output offset of batch \<open>n\<close> is \<open>n\<close> times
  \<open>M N\<close>, and the output holds one \<open>M \<times> N\<close> block per batch.
\<close>

definition output_tiled :: "MatMulComputeHelper \<Rightarrow> bool" where
  "output_tiled h =
     (let MN = unat (helper_M h) * unat (helper_N h)
      in OutputOffsets h = map (\<lambda>n. n * MN) [0..<length (OutputOffsets h)]
         \<and> Size (OutputShape h) = int (length (OutputOffsets h) * MN))"

section \<open>A shape helper after the spec\<close>

text \<open>
  Modelled from the spec: \<^verbatim>\<open>MatMulComputeHelper::Compute\<close> is defined in
  \<^verbatim>\<open>matmul_helper.h\<close>. The function below follows sections 4.1 (shape broadcast
  resolver) and 4.2 (batch offset computer) of the spec. It serves as a concrete helper
  where a property is evaluated on concrete tensors; the properties themselves are proved
  for every helper. The spec gives no result for an operand of rank 0; the model rejects it
  as a shape mismatch.
\<close>

definition pad_left :: "nat \<Rightarrow> int list \<Rightarrow> int list" where
  "pad_left n ds = replicate (n - length ds) 1 @ ds"

fun broadcast_batch :: "int list \<Rightarrow> int list \<Rightarrow> error + int list" where
  "broadcast_batch [] [] = Inr []"
| "broadcast_batch (x # xs) (y # ys) =
     (if x = y \<or> x = 1 \<or> y = 1 then
        (case broadcast_batch xs ys of
           Inl e \<Rightarrow> Inl e
         | Inr ds \<Rightarrow> Inr ((if x = 1 then y else x) # ds))
      else Inl BroadcastIncompatible)"
| "broadcast_batch _ _ = Inl BroadcastIncompatible"

fun batch_indices :: "int list \<Rightarrow> nat list list" where
  "batch_indices [] = [[]]"
| "batch_indices (d # ds) = concat (map (\<lambda>i. map ((#) i) (batch_indices ds)) [0..<nat d])"

fun operand_offset :: "int list \<Rightarrow> nat \<Rightarrow> nat list \<Rightarrow> nat" where
  "operand_offset (d # ds) block (i # idx) =
     (if d = 1 then 0 else i * (nat (prod_list ds) * block)) + operand_offset ds block idx"
| "operand_offset _ block _ = 0"

definition matrix_dims :: "shape \<Rightarrow> bool \<Rightarrow> int \<times> int" where
  "matrix_dims s transposed =
     (let r = s ! (length s - 2); c = s ! (length s - 1)
      in if transposed then (c, r) else (r, c))"

definition spec_helper_Compute :: helper_fn where
  "spec_helper_Compute shapeA shapeB transposeA transposeB =
     (if length shapeA = 0 \<or> length shapeB = 0 then Inl ShapeMismatch
      else
        (let vecA = (length shapeA = 1);
             vecB = (length shapeB = 1);
             (M, KA) = (if vecA then (1, shapeA ! 0) else matrix_dims shapeA transposeA);
             (KB, N) = (if vecB then (shapeB ! 0, 1) else matrix_dims shapeB transposeB);
             batchA = (if vecA then [] else take (length shapeA - 2) shapeA);
             batchB = (if vecB then [] else take (length shapeB - 2) shapeB);
             rank = max (length batchA) (length batchB);
             padA = pad_left rank batchA;
             padB = pad_left rank batchB
         in if KA \<noteq> KB then Inl ShapeMismatch
            else
              (case broadcast_batch padA padB of
                 Inl e \<Rightarrow> Inl e
               | Inr batch \<Rightarrow>
                   (let idxs = batch_indices batch
                    in Inr \<lparr>helper_M = word_of_int M,
                            helper_N = word_of_int N,
                            helper_K = word_of_int KA,
                            OutputShape = batch @ (if vecA then [] else [M])
                                                @ (if vecB then [] else [N]),
                            LeftOffsets = map (operand_offset padA (nat (M * KA))) idxs,
                            RightOffsets = map (operand_offset padB (nat (KA * N))) idxs,
                            OutputOffsets = map (\<lambda>n. n * nat (M * N)) [0..<length idxs]\<rparr>))))"

section \<open>Concrete tensors and kernels\<close>

text \<open>
  Small concrete inputs on which the properties below are evaluated: two \<open>2 \<times> 2\<close> input
  tensors, a context holding them, a kernel as constructed (default attributes, nothing
  packed), and a pack primitive that packs matrices and declines every other rank.
\<close>

definition example_A :: Tensor where
  "example_A = \<lparr>Shape = [2, 2], Data = Ptr (Tensor_Buffer 0) 0\<rparr>"

definition example_B :: Tensor where
  "example_B = \<lparr>Shape = [2, 2], Data = Ptr (Tensor_Buffer 1) 0\<rparr>"

definition example_ctx :: OpKernelContext where
  "example_ctx = \<lparr>Input = [0 \<mapsto> example_A, 1 \<mapsto> example_B],
                  Output_Data = Ptr (Tensor_Buffer 2) 0,
                  OperatorThreadPool = 0\<rparr>"

definition fresh_kernel :: MatMul_float where
  "fresh_kernel = \<lparr>trans_a_attr = False, trans_b_attr = False, alpha_attr = 1,
                   packed_b = \<lparr>get = Null, deleter = None\<rparr>, b_shape = []\<rparr>"

definition example_pack :: pack_fn where
  "example_pack alloc t transposed =
     (if NumDimensions (Shape t) = 2 then Some (7, Shape t) else None)"

definition empty_record :: PrepackedWeight where
  "empty_record = \<lparr>buffers = [], shapes = [], weights_sizes = [], is_filled = False\<rparr>"

definition cached_record :: PrepackedWeight where
  "cached_record = \<lparr>buffers = [\<lparr>get = Ptr (Heap_Buffer 7) 0, deleter = Some 3\<rparr>],
                    shapes = [[2, 2]], weights_sizes = [4], is_filled = True\<rparr>"

definition vector_B :: Tensor where
  "vector_B = \<lparr>Shape = [2], Data = Ptr (Tensor_Buffer 1) 0\<rparr>"

definition packed_kernel :: MatMul_float where
  "packed_kernel = fresh_kernel\<lparr>packed_b := \<lparr>get = Ptr (Heap_Buffer 7) 0, deleter = None\<rparr>,
                                b_shape := [2, 2]\<rparr>"

text \<open>
  A product whose inner dimension is \<open>2^31\<close>: A has shape \<open>[2, 2^31]\<close> and B has shape
  \<open>[2^31, 1]\<close>.
\<close>

definition wide_A :: Tensor where
  "wide_A = \<lparr>Shape = [2, 2147483648], Data = Ptr (Tensor_Buffer 0) 0\<rparr>"

definition wide_B :: Tensor where
  "wide_B = \<lparr>Shape = [2147483648, 1], Data = Ptr (Tensor_Buffer 1) 0\<rparr>"

definition wide_ctx :: OpKernelContext where
  "wide_ctx = \<lparr>Input = [0 \<mapsto> wide_A, 1 \<mapsto> wide_B],
               Output_Data = Ptr (Tensor_Buffer 2) 0,
               OperatorThreadPool = 0\<rparr>"

text \<open>Two vectors of length 2, a kernel with both transpose attributes set, and an A with no rows.\<close>

definition vector_A :: Tensor where
  "vector_A = \<lparr>Shape = [2], Data = Ptr (Tensor_Buffer 0) 0\<rparr>"

definition vector_ctx :: OpKernelContext where
  "vector_ctx = \<lparr>Input = [0 \<mapsto> vector_A, 1 \<mapsto> vector_B],
                  Output_Data = Ptr (Tensor_Buffer 2) 0, OperatorThreadPool = 0\<rparr>"

definition transposing_kernel :: MatMul_float where
  "transposing_kernel = fresh_kernel\<lparr>trans_a_attr := True, trans_b_attr := True\<rparr>"

definition empty_A :: Tensor where
  "empty_A = \<lparr>Shape = [0, 2], Data = Ptr (Tensor_Buffer 0) 0\<rparr>"

definition empty_ctx :: OpKernelContext where
  "empty_ctx = \<lparr>Input = [0 \<mapsto> empty_A, 1 \<mapsto> example_B],
                  Output_Data = Ptr (Tensor_Buffer 2) 0, OperatorThreadPool = 0\<rparr>"

text \<open>
  Two memories that hold \<open>A = [[1, 2], [3, 4]]\<close> and \<open>B = [[5, 6], [7, 8]]\<close> and differ
  only in the buffer of the output, and a row-major layout for packed buffers.
\<close>

definition example_mem :: memory where
  "example_mem =
     (\<lambda>(r, i). if r = Tensor_Buffer 0 \<and> i < 4 then [1, 2, 3, 4] ! i
               else if r = Tensor_Buffer 1 \<and> i < 4 then [5, 6, 7, 8] ! i
               else 0)"

definition dirty_mem :: memory where
  "dirty_mem = (\<lambda>(r, i). if r = Tensor_Buffer 2 then 99 else example_mem (r, i))"

definition row_major :: packed_layout where
  "row_major K N k j = k * N + j"

definition output_cells :: "(region \<times> nat) list" where
  "output_cells = map (\<lambda>i. (Tensor_Buffer 2, i)) [0, 1, 2, 3]"

text \<open>A kernel whose \<^verbatim>\<open>alpha\<close> attribute is 2.\<close>

definition doubling_kernel :: MatMul_float where
  "doubling_kernel = fresh_kernel\<lparr>alpha_attr := 2\<rparr>"

section \<open>Runs of the float kernel\<close>

text \<open>
  The run of \<^verbatim>\<open>MatMul<float>::Compute\<close> in each of its cases: no A tensor, a helper
  error, an empty output, and the dispatch; then the events a run can contain.
\<close>

lemma Compute_float_no_A:
  "Input ctx 0 = None \<Longrightarrow>
   Compute_float hc this ctx
     = (Input_Tensor 0 # (if get (packed_b this) \<noteq> Null then [] else [Input_Tensor 1]),
        Inl Null_Dereference)"
  by (simp add: Compute_float_def)

lemma Compute_float_helper_error:
  "Input ctx 0 = Some a \<Longrightarrow>
   hc (Shape a) (B_shape this ctx) (trans_a this a) (trans_b this ctx) = Inl e \<Longrightarrow>
   Compute_float hc this ctx
     = (Input_Tensor 0 # (if get (packed_b this) \<noteq> Null then [] else [Input_Tensor 1])
          @ [Helper_Compute (Shape a) (B_shape this ctx) (trans_a this a) (trans_b this ctx)],
        Inl e)"
  by (simp add: Compute_float_def)

lemma Compute_float_empty:
  "Input ctx 0 = Some a \<Longrightarrow>
   hc (Shape a) (B_shape this ctx) (trans_a this a) (trans_b this ctx) = Inr h \<Longrightarrow>
   Size (OutputShape h) = 0 \<Longrightarrow>
   Compute_float hc this ctx
     = (Input_Tensor 0 # (if get (packed_b this) \<noteq> Null then [] else [Input_Tensor 1])
          @ [Helper_Compute (Shape a) (B_shape this ctx) (trans_a this a) (trans_b this ctx),
             Output_Tensor 0 (OutputShape h)],
        Inr ())"
  by (simp add: Compute_float_def)

lemma Compute_float_nonempty:
  "Input ctx 0 = Some a \<Longrightarrow>
   hc (Shape a) (B_shape this ctx) (trans_a this a) (trans_b this ctx) = Inr h \<Longrightarrow>
   Size (OutputShape h) \<noteq> 0 \<Longrightarrow>
   Compute_float hc this ctx
     = (case fill_data this h (Data a) (case raw_B this ctx of Some bt \<Rightarrow> Data bt | None \<Rightarrow> Null)
               (Output_Data ctx)
               (int_to_size_t (if trans_a this a then helper_M h else helper_K h))
               (int_to_size_t (if trans_b this ctx then helper_K h else helper_N h))
               (helper_N h) [0..<length (OutputOffsets h)] of
          Inl e \<Rightarrow>
            (Input_Tensor 0 # (if get (packed_b this) \<noteq> Null then [] else [Input_Tensor 1])
               @ [Helper_Compute (Shape a) (B_shape this ctx) (trans_a this a) (trans_b this ctx),
                  Output_Tensor 0 (OutputShape h)],
             Inl e)
        | Inr data \<Rightarrow>
            (Input_Tensor 0 # (if get (packed_b this) \<noteq> Null then [] else [Input_Tensor 1])
               @ [Helper_Compute (Shape a) (B_shape this ctx) (trans_a this a) (trans_b this ctx),
                  Output_Tensor 0 (OutputShape h),
                  MlasGemmBatch (if trans_a this a then CblasTrans else CblasNoTrans)
                    (if trans_b this ctx then CblasTrans else CblasNoTrans)
                    (helper_M h) (helper_N h) (helper_K h) data (length (OutputOffsets h))
                    (OperatorThreadPool ctx)],
             Inr ()))"
  by (simp add: Compute_float_def Let_def split: sum.splits)

lemma fill_data_length:
  "fill_data this h a b y lda ldb N idx = Inr ds \<Longrightarrow> length ds = length idx"
  by (induction idx arbitrary: ds) (auto simp: Let_def split: if_splits sum.splits)

lemma fill_data_nth:
  "fill_data this h a b y lda ldb N idx = Inr ds \<Longrightarrow> j < length idx \<Longrightarrow>
     ds ! j = \<lparr>gemm_A = ptr_add a (LeftOffsets h ! (idx ! j)),
               gemm_lda = lda,
               gemm_B = (if get (packed_b this) \<noteq> Null then get (packed_b this)
                         else ptr_add b (RightOffsets h ! (idx ! j))),
               gemm_ldb = ldb,
               gemm_C = ptr_add y (OutputOffsets h ! (idx ! j)),
               gemm_ldc = N,
               gemm_alpha = alpha_attr this,
               gemm_beta = 0,
               gemm_BIsPacked = (get (packed_b this) \<noteq> Null)\<rparr>"
proof (induction idx arbitrary: ds j)
  case Nil
  then show ?case by simp
next
  case (Cons i rest)
  then show ?case
    by (cases j) (auto simp: Let_def split: if_splits sum.splits)
qed

lemma fill_data_ok:
  "(\<forall>i\<in>set idx. i < length (LeftOffsets h) \<and> i < length (OutputOffsets h)
        \<and> (get (packed_b this) = Null \<longrightarrow> i < length (RightOffsets h)))
   \<Longrightarrow> \<exists>ds. fill_data this h a b y lda ldb N idx = Inr ds"
  by (induction idx) (auto simp: Let_def)

lemma fill_data_all:
  "fill_data this h a b y lda ldb N idx = Inr ds \<Longrightarrow> d \<in> set ds \<Longrightarrow>
     gemm_lda d = lda \<and> gemm_ldb d = ldb \<and> gemm_ldc d = N \<and> gemm_alpha d = alpha_attr this
     \<and> gemm_beta d = 0 \<and> gemm_BIsPacked d = (get (packed_b this) \<noteq> Null)
     \<and> (get (packed_b this) \<noteq> Null \<longrightarrow> gemm_B d = get (packed_b this))"
  by (induction idx arbitrary: ds) (auto simp: Let_def split: if_splits sum.splits)

lemma Compute_float_events:
  assumes "e \<in> set (fst (Compute_float hc this ctx))"
  shows "e = Input_Tensor 0 \<or> (e = Input_Tensor 1 \<and> get (packed_b this) = Null)
     \<or> (\<exists>a. Input ctx 0 = Some a \<and>
          (e = Helper_Compute (Shape a) (B_shape this ctx) (trans_a this a) (trans_b this ctx)
           \<or> (\<exists>h. hc (Shape a) (B_shape this ctx) (trans_a this a) (trans_b this ctx) = Inr h \<and>
                (e = Output_Tensor 0 (OutputShape h)
                 \<or> (\<exists>data. Size (OutputShape h) \<noteq> 0
                      \<and> fill_data this h (Data a)
                           (case raw_B this ctx of Some bt \<Rightarrow> Data bt | None \<Rightarrow> Null)
                           (Output_Data ctx)
                           (int_to_size_t (if trans_a this a then helper_M h else helper_K h))
                           (int_to_size_t (if trans_b this ctx then helper_K h else helper_N h))
                           (helper_N h) [0..<length (OutputOffsets h)] = Inr data
                      \<and> e = MlasGemmBatch (if trans_a this a then CblasTrans else CblasNoTrans)
                              (if trans_b this ctx then CblasTrans else CblasNoTrans)
                              (helper_M h) (helper_N h) (helper_K h) data
                              (length (OutputOffsets h)) (OperatorThreadPool ctx))))))"
proof (cases "Input ctx 0")
  case None
  from assms show ?thesis
    unfolding Compute_float_no_A [OF None] by (auto split: if_splits)
next
  case (Some a)
  show ?thesis
  proof (cases "hc (Shape a) (B_shape this ctx) (trans_a this a) (trans_b this ctx)")
    case (Inl err)
    from assms show ?thesis
      unfolding Compute_float_helper_error [where hc = hc, OF Some Inl] using Some by (auto split: if_splits)
  next
    case (Inr h)
    show ?thesis
    proof (cases "Size (OutputShape h) = 0")
      case True
      from assms show ?thesis
        unfolding Compute_float_empty [where hc = hc, OF Some Inr True] using Some Inr
        by (auto split: if_splits)
    next
      case False
      show ?thesis
      proof (cases "fill_data this h (Data a)
                           (case raw_B this ctx of Some bt \<Rightarrow> Data bt | None \<Rightarrow> Null)
                           (Output_Data ctx)
                           (int_to_size_t (if trans_a this a then helper_M h else helper_K h))
                           (int_to_size_t (if trans_b this ctx then helper_K h else helper_N h))
                           (helper_N h) [0..<length (OutputOffsets h)]")
        case (Inl err)
        from assms show ?thesis
          unfolding Compute_float_nonempty [where hc = hc, OF Some Inr False] Inl using Some Inr
          by (auto split: if_splits)
      next
        case (Inr data)
        from assms show ?thesis
          unfolding Compute_float_nonempty [where hc = hc, OF Some \<open>hc _ _ _ _ = Inr h\<close> False] Inr
          using Some \<open>hc _ _ _ _ = Inr h\<close> False Inr
          by (auto split: if_splits)
      qed
    qed
  qed
qed

lemma Compute_float_prefix:
  "\<exists>rest. fst (Compute_float hc this ctx)
      = Input_Tensor 0 # (if get (packed_b this) \<noteq> Null then [] else [Input_Tensor 1]) @ rest"
proof (cases "Input ctx 0")
  case None
  show ?thesis unfolding Compute_float_no_A [OF None] by simp
next
  case (Some a)
  show ?thesis
  proof (cases "hc (Shape a) (B_shape this ctx) (trans_a this a) (trans_b this ctx)")
    case (Inl err)
    show ?thesis unfolding Compute_float_helper_error [where hc = hc, OF Some Inl] by simp
  next
    case (Inr h)
    show ?thesis
    proof (cases "Size (OutputShape h) = 0")
      case True
      show ?thesis unfolding Compute_float_empty [where hc = hc, OF Some Inr True] by simp
    next
      case False
      show ?thesis unfolding Compute_float_nonempty [where hc = hc, OF Some Inr False]
        by (simp split: sum.splits)
    qed
  qed
qed

lemma Compute_float_descriptors:
  assumes "e \<in> set (fst (Compute_float hc this ctx))" and "d \<in> set (descriptors e)"
  shows "gemm_alpha d = alpha_attr this \<and> gemm_beta d = 0
     \<and> gemm_BIsPacked d = (get (packed_b this) \<noteq> Null)
     \<and> (get (packed_b this) \<noteq> Null \<longrightarrow> gemm_B d = get (packed_b this))"
  using Compute_float_events [OF assms(1)] assms(2)
  by (auto dest!: fill_data_all)

lemma Compute_float_reads_B:
  "Input_Tensor 1 \<in> set (fst (Compute_float hc this ctx)) \<longleftrightarrow> get (packed_b this) = Null"
proof
  assume "Input_Tensor 1 \<in> set (fst (Compute_float hc this ctx))"
  from Compute_float_events [OF this] show "get (packed_b this) = Null" by auto
next
  assume "get (packed_b this) = Null"
  with Compute_float_prefix [of hc this ctx]
  show "Input_Tensor 1 \<in> set (fst (Compute_float hc this ctx))" by auto
qed

lemma Compute_float_cong:
  assumes "Input ctx 0 = Input ctx' 0" and "raw_B this ctx = raw_B this ctx'"
    and "Output_Data ctx = Output_Data ctx'" and "OperatorThreadPool ctx = OperatorThreadPool ctx'"
  shows "Compute_float hc this ctx = Compute_float hc this ctx'"
  using assms
  by (simp add: Compute_float_def B_shape_def trans_b_def
        cong: option.case_cong sum.case_cong if_cong)

subsection \<open>Runs on the concrete inputs\<close>

lemma spec_helper_2x2:
  "spec_helper_Compute [2, 2] [2, 2] False False
     = Inr \<lparr>helper_M = 2, helper_N = 2, helper_K = 2, OutputShape = [2, 2],
            LeftOffsets = [0], RightOffsets = [0], OutputOffsets = [0]\<rparr>"
  by (simp add: spec_helper_Compute_def matrix_dims_def pad_left_def)

lemma Compute_float_example:
  "Compute_float spec_helper_Compute fresh_kernel example_ctx =
     ([Input_Tensor 0, Input_Tensor 1, Helper_Compute [2, 2] [2, 2] False False,
       Output_Tensor 0 [2, 2],
       MlasGemmBatch CblasNoTrans CblasNoTrans 2 2 2
         [\<lparr>gemm_A = Ptr (Tensor_Buffer 0) 0, gemm_lda = 2,
           gemm_B = Ptr (Tensor_Buffer 1) 0, gemm_ldb = 2,
           gemm_C = Ptr (Tensor_Buffer 2) 0, gemm_ldc = 2,
           gemm_alpha = 1, gemm_beta = 0, gemm_BIsPacked = False\<rparr>] 1 0],
      Inr ())"
  by (simp add: Compute_float_def fresh_kernel_def example_ctx_def example_A_def example_B_def
      raw_B_def B_shape_def trans_a_def trans_b_def NumDimensions_def spec_helper_2x2
      Size_def int_to_size_t_def Let_def)

lemma Compute_float_packed_example:
  "Compute_float spec_helper_Compute packed_kernel
       (example_ctx\<lparr>Input := (Input example_ctx)(1 := None)\<rparr>) =
     ([Input_Tensor 0, Helper_Compute [2, 2] [2, 2] False False, Output_Tensor 0 [2, 2],
       MlasGemmBatch CblasNoTrans CblasNoTrans 2 2 2
         [\<lparr>gemm_A = Ptr (Tensor_Buffer 0) 0, gemm_lda = 2,
           gemm_B = Ptr (Heap_Buffer 7) 0, gemm_ldb = 2,
           gemm_C = Ptr (Tensor_Buffer 2) 0, gemm_ldc = 2,
           gemm_alpha = 1, gemm_beta = 0, gemm_BIsPacked = True\<rparr>] 1 0],
      Inr ())"
  by (simp add: Compute_float_def packed_kernel_def fresh_kernel_def example_ctx_def
      example_A_def example_B_def raw_B_def B_shape_def trans_a_def trans_b_def
      NumDimensions_def spec_helper_2x2 Size_def int_to_size_t_def Let_def)

section \<open>Properties of the prepack protocol\<close>

text \<open>
  C10. \<^verbatim>\<open>UseCachedPrePackedWeight\<close> with input index 1 reads the first buffer and the
  first shape of the cached record whatever its \<^verbatim>\<open>is_filled_\<close> flag says. The reads
  are in bounds exactly when the record holds at least one buffer and at least one shape;
  then the call returns success with \<^verbatim>\<open>read_from_cache = true\<close>, and the kernel holds
  the first buffer's address and the first shape.
\<close>

theorem UseCached_reads_first_entries:
  "UseCachedPrePackedWeight this (w\<lparr>is_filled := f\<rparr>) 1 = UseCachedPrePackedWeight this w 1
   \<and> (UseCachedPrePackedWeight this w 1 = Inl Out_Of_Bounds \<longleftrightarrow> buffers w = [] \<or> shapes w = [])
   \<and> (buffers w \<noteq> [] \<and> shapes w \<noteq> [] \<longrightarrow>
        (\<exists>this'. UseCachedPrePackedWeight this w 1 = Inr (this', True)
                \<and> get (packed_b this') = get (buffers w ! 0)
                \<and> b_shape this' = shapes w ! 0))"
  by (auto simp: UseCachedPrePackedWeight_def split: list.splits)

theorem UseCached_reads_first_entries_witness:
  "buffers (cached_record\<lparr>is_filled := False\<rparr>) \<noteq> []
   \<and> shapes (cached_record\<lparr>is_filled := False\<rparr>) \<noteq> []
   \<and> UseCachedPrePackedWeight fresh_kernel (cached_record\<lparr>is_filled := False\<rparr>) 1
       = Inr (fresh_kernel\<lparr>packed_b := \<lparr>get = Ptr (Heap_Buffer 7) 0, deleter = None\<rparr>,
                           b_shape := [2, 2]\<rparr>, True)
   \<and> UseCachedPrePackedWeight fresh_kernel empty_record 1 = Inl Out_Of_Bounds"
  using UseCached_reads_first_entries
          [where this = fresh_kernel and w = "cached_record\<lparr>is_filled := False\<rparr>" and f = True]
        UseCached_reads_first_entries
          [where this = fresh_kernel and w = empty_record and f = True]
  by (simp add: cached_record_def empty_record_def UseCachedPrePackedWeight_def)

text \<open>
  C9. Given a cached record that supplies a packed buffer and a shape,
  \<^verbatim>\<open>UseCachedPrePackedWeight\<close> with input index 1 returns success with
  \<^verbatim>\<open>read_from_cache = true\<close>; the kernel's \<^verbatim>\<open>packed_b_\<close> becomes an alias of the
  record's first buffer with a null deleter, its \<^verbatim>\<open>b_shape_\<close> becomes the record's first
  shape, and nothing else changes. Destroying the alias deallocates nothing.
\<close>

theorem UseCached_adopts_alias:
  assumes "buffers w \<noteq> []" and "shapes w \<noteq> []"
  shows "UseCachedPrePackedWeight this w 1
           = Inr (this\<lparr>packed_b := \<lparr>get = get (buffers w ! 0), deleter = None\<rparr>,
                       b_shape := shapes w ! 0\<rparr>, True)
         \<and> destroy \<lparr>get = get (buffers w ! 0), deleter = None\<rparr> = None"
  using assms
  by (auto simp: UseCachedPrePackedWeight_def destroy_def split: list.splits)

theorem UseCached_adopts_alias_witness:
  "buffers cached_record \<noteq> [] \<and> shapes cached_record \<noteq> []
   \<and> UseCachedPrePackedWeight fresh_kernel cached_record 1
       = Inr (fresh_kernel\<lparr>packed_b := \<lparr>get = Ptr (Heap_Buffer 7) 0, deleter = None\<rparr>,
                           b_shape := [2, 2]\<rparr>, True)
   \<and> destroy \<lparr>get = Ptr (Heap_Buffer 7) 0, deleter = None\<rparr> = None
   \<and> destroy (buffers cached_record ! 0) = Some (3, Ptr (Heap_Buffer 7) 0)"
  using UseCached_adopts_alias [where this = fresh_kernel and w = cached_record]
  by (simp add: cached_record_def destroy_def)

text \<open>
  C8. When the pack primitive succeeds on input index 1 and a caching record is supplied,
  \<^verbatim>\<open>PrePack\<close> returns success with \<^verbatim>\<open>is_packed = true\<close>; the owned packed buffer is
  appended to the record's buffers, its shape and element count are appended too, and the
  record is marked filled. The kernel keeps an alias with a null deleter of the record's
  first buffer, which is the buffer just packed whenever the record held no buffer before
  (the empty cache record of the spec); the record then owns that buffer through the
  allocator, and destroying the kernel's alias deallocates nothing.
\<close>

theorem PrePack_donates_to_cache:
  assumes "pack alloc tensor (trans_b_attr this) = Some (h, shp)"
  shows "PrePack pack this tensor 1 (Some w) alloc
           = Inr (this\<lparr>packed_b :=
                          \<lparr>get = get ((buffers w @ [\<lparr>get = Ptr (Heap_Buffer h) 0,
                                                      deleter = Some alloc\<rparr>]) ! 0),
                           deleter = None\<rparr>,
                       b_shape := shp\<rparr>,
                  True,
                  Some (w\<lparr>buffers := buffers w @ [\<lparr>get = Ptr (Heap_Buffer h) 0,
                                                    deleter = Some alloc\<rparr>],
                          shapes := shapes w @ [shp],
                          weights_sizes := weights_sizes w @ [word_of_int (Size shp)],
                          is_filled := True\<rparr>))
         \<and> (buffers w = [] \<longrightarrow>
              PrePack pack this tensor 1 (Some w) alloc
                = Inr (this\<lparr>packed_b := \<lparr>get = Ptr (Heap_Buffer h) 0, deleter = None\<rparr>,
                            b_shape := shp\<rparr>,
                       True,
                       Some (w\<lparr>buffers := [\<lparr>get = Ptr (Heap_Buffer h) 0, deleter = Some alloc\<rparr>],
                               shapes := shapes w @ [shp],
                               weights_sizes := weights_sizes w @ [word_of_int (Size shp)],
                               is_filled := True\<rparr>)))
         \<and> destroy \<lparr>get = Ptr (Heap_Buffer h) 0, deleter = None\<rparr> = None
         \<and> destroy \<lparr>get = Ptr (Heap_Buffer h) 0, deleter = Some alloc\<rparr>
              = Some (alloc, Ptr (Heap_Buffer h) 0)"
  using assms
  by (auto simp: PrePack_def call_GemmPackBFp32_def moved_from_def destroy_def Let_def)

theorem PrePack_donates_to_cache_witness:
  "example_pack 3 example_B (trans_b_attr fresh_kernel) = Some (7, [2, 2])
   \<and> PrePack example_pack fresh_kernel example_B 1 (Some empty_record) 3
       = Inr (fresh_kernel\<lparr>packed_b := \<lparr>get = Ptr (Heap_Buffer 7) 0, deleter = None\<rparr>,
                           b_shape := [2, 2]\<rparr>,
              True, Some cached_record)"
  using PrePack_donates_to_cache
          [where pack = example_pack and alloc = 3 and tensor = example_B
             and this = fresh_kernel and h = 7 and shp = "[2, 2]" and w = empty_record]
  by (simp add: example_pack_def example_B_def NumDimensions_def fresh_kernel_def
        empty_record_def cached_record_def Size_def)

text \<open>
  C7. \<^verbatim>\<open>PrePack\<close> never returns an error status. Its \<^verbatim>\<open>is_packed\<close> result is true
  exactly when the input index is 1 and the pack primitive succeeds. For any other index,
  or when the primitive declines, it returns success with \<^verbatim>\<open>is_packed = false\<close> and
  leaves the kernel and the caching record as they were; a kernel that held no packed
  buffer (the state NotPacked of the spec) then runs \<^verbatim>\<open>Compute\<close> on the raw operand: it
  fetches input 1 and no descriptor is marked packed.
\<close>

theorem PrePack_never_fails:
  "(\<forall>e. PrePack pack this tensor idx w alloc \<noteq> Inl e)
   \<and> (\<exists>this' w'. PrePack pack this tensor idx w alloc
          = Inr (this', (idx = 1 \<and> pack alloc tensor (trans_b_attr this) \<noteq> None), w'))
   \<and> (idx \<noteq> 1 \<or> pack alloc tensor (trans_b_attr this) = None \<longrightarrow>
        PrePack pack this tensor idx w alloc = Inr (this, False, w)
        \<and> (get (packed_b this) = Null \<longrightarrow>
             (\<forall>hc ctx. Input_Tensor 1 \<in> set (fst (Compute_float hc this ctx))
                \<and> (\<forall>e\<in>set (fst (Compute_float hc this ctx)).
                      \<forall>d\<in>set (descriptors e). \<not> gemm_BIsPacked d))))"
proof -
  have status: "\<forall>e. PrePack pack this tensor idx w alloc \<noteq> Inl e"
    by (auto simp: PrePack_def call_GemmPackBFp32_def Let_def split: option.splits prod.splits)
  have flag: "\<exists>this' w'. PrePack pack this tensor idx w alloc
          = Inr (this', (idx = 1 \<and> pack alloc tensor (trans_b_attr this) \<noteq> None), w')"
    by (auto simp: PrePack_def call_GemmPackBFp32_def Let_def split: option.splits prod.splits)
  have declined: "PrePack pack this tensor idx w alloc = Inr (this, False, w)"
    if "idx \<noteq> 1 \<or> pack alloc tensor (trans_b_attr this) = None"
    using that by (auto simp: PrePack_def call_GemmPackBFp32_def Let_def)
  have raw: "Input_Tensor 1 \<in> set (fst (Compute_float hc this ctx))
                \<and> (\<forall>e\<in>set (fst (Compute_float hc this ctx)).
                      \<forall>d\<in>set (descriptors e). \<not> gemm_BIsPacked d)"
    if "get (packed_b this) = Null" for hc ctx
    using that Compute_float_descriptors [of _ hc this ctx] Compute_float_reads_B [of hc this ctx]
    by blast
  from status flag declined raw show ?thesis by blast
qed

theorem PrePack_never_fails_witness:
  "example_pack 3 vector_B (trans_b_attr fresh_kernel) = None
   \<and> PrePack example_pack fresh_kernel vector_B 1 (Some empty_record) 3
        = Inr (fresh_kernel, False, Some empty_record)
   \<and> PrePack example_pack fresh_kernel example_A 0 None 3 = Inr (fresh_kernel, False, None)
   \<and> get (packed_b fresh_kernel) = Null
   \<and> Input_Tensor 1 \<in> set (fst (Compute_float spec_helper_Compute fresh_kernel example_ctx))"
  using PrePack_never_fails [where pack = example_pack and this = fresh_kernel and tensor = vector_B
           and idx = 1 and w = "Some empty_record" and alloc = 3]
        PrePack_never_fails [where pack = example_pack and this = fresh_kernel and tensor = example_A
           and idx = 0 and w = None and alloc = 3]
  by (simp add: example_pack_def vector_B_def NumDimensions_def fresh_kernel_def)

section \<open>Properties of Compute\<close>

text \<open>
  C2. When the kernel holds a packed buffer, \<^verbatim>\<open>Compute\<close> never asks the context for
  input 1 and its run does not depend on what the context holds there; shape resolution
  receives the shape recorded at pack time, and every descriptor of the batch is marked
  packed with the packed buffer as its B pointer, whatever the right offsets are.
\<close>

theorem packed_Compute_never_reads_raw_B:
  assumes "get (packed_b this) \<noteq> Null"
  shows "(Input ctx' 0 = Input ctx 0 \<and> Output_Data ctx' = Output_Data ctx
            \<and> OperatorThreadPool ctx' = OperatorThreadPool ctx
          \<longrightarrow> Compute_float hc this ctx' = Compute_float hc this ctx)
         \<and> Input_Tensor 1 \<notin> set (fst (Compute_float hc this ctx))
         \<and> (\<forall>sa sb ta tb. Helper_Compute sa sb ta tb \<in> set (fst (Compute_float hc this ctx))
               \<longrightarrow> sb = b_shape this)
         \<and> (\<forall>e\<in>set (fst (Compute_float hc this ctx)). \<forall>d\<in>set (descriptors e).
               gemm_BIsPacked d \<and> gemm_B d = get (packed_b this))"
proof -
  have "Compute_float hc this ctx' = Compute_float hc this ctx"
    if "Input ctx' 0 = Input ctx 0" and "Output_Data ctx' = Output_Data ctx"
      and "OperatorThreadPool ctx' = OperatorThreadPool ctx"
    using that assms by (intro Compute_float_cong) (simp_all add: raw_B_def)
  moreover have "Input_Tensor 1 \<notin> set (fst (Compute_float hc this ctx))"
    using assms Compute_float_reads_B [of hc this ctx] by blast
  moreover have "sb = b_shape this"
    if "Helper_Compute sa sb ta tb \<in> set (fst (Compute_float hc this ctx))" for sa sb ta tb
    using Compute_float_events [OF that] assms by (auto simp: B_shape_def raw_B_def)
  moreover have "gemm_BIsPacked d \<and> gemm_B d = get (packed_b this)"
    if "e \<in> set (fst (Compute_float hc this ctx))" and "d \<in> set (descriptors e)" for e d
    using Compute_float_descriptors [OF that] assms by simp
  ultimately show ?thesis by blast
qed

theorem packed_Compute_never_reads_raw_B_witness:
  "get (packed_b packed_kernel) \<noteq> Null
   \<and> Compute_float spec_helper_Compute packed_kernel example_ctx =
       ([Input_Tensor 0, Helper_Compute [2, 2] [2, 2] False False, Output_Tensor 0 [2, 2],
         MlasGemmBatch CblasNoTrans CblasNoTrans 2 2 2
           [\<lparr>gemm_A = Ptr (Tensor_Buffer 0) 0, gemm_lda = 2,
             gemm_B = Ptr (Heap_Buffer 7) 0, gemm_ldb = 2,
             gemm_C = Ptr (Tensor_Buffer 2) 0, gemm_ldc = 2,
             gemm_alpha = 1, gemm_beta = 0, gemm_BIsPacked = True\<rparr>] 1 0],
        Inr ())"
  using packed_Compute_never_reads_raw_B
          [where this = packed_kernel and hc = spec_helper_Compute
             and ctx = "example_ctx\<lparr>Input := (Input example_ctx)(1 := None)\<rparr>"
             and ctx' = example_ctx]
        Compute_float_packed_example
  by (simp add: packed_kernel_def fresh_kernel_def example_ctx_def)

text \<open>
  C6. When the A operand has rank 1, the A-transpose flag passed to shape resolution and to
  the GEMM primitive is false whatever the attribute says; likewise the B-transpose flag is
  false when the B shape in use (raw or recorded) has rank 1.
\<close>

theorem vector_operands_are_not_transposed:
  "(\<forall>a. Input ctx 0 = Some a \<and> NumDimensions (Shape a) = 1 \<longrightarrow>
        (\<forall>e\<in>set (fst (Compute_float hc this ctx)). passed_trans_a e \<noteq> Some True))
   \<and> (NumDimensions (B_shape this ctx) = 1 \<longrightarrow>
        (\<forall>e\<in>set (fst (Compute_float hc this ctx)). passed_trans_b e \<noteq> Some True))"
proof -
  have "passed_trans_a e \<noteq> Some True"
    if "Input ctx 0 = Some a" and "NumDimensions (Shape a) = 1"
      and "e \<in> set (fst (Compute_float hc this ctx))" for a e
    using Compute_float_events [OF that(3)] that(1,2) by (auto simp: trans_a_def)
  moreover have "passed_trans_b e \<noteq> Some True"
    if "NumDimensions (B_shape this ctx) = 1"
      and "e \<in> set (fst (Compute_float hc this ctx))" for e
    using Compute_float_events [OF that(2)] that(1) by (auto simp: trans_b_def)
  ultimately show ?thesis by blast
qed

lemma spec_helper_vectors:
  "spec_helper_Compute [2] [2] False False
     = Inr \<lparr>helper_M = 1, helper_N = 1, helper_K = 2, OutputShape = [],
            LeftOffsets = [0], RightOffsets = [0], OutputOffsets = [0]\<rparr>"
  by (simp add: spec_helper_Compute_def matrix_dims_def pad_left_def)

lemma Compute_float_vector_example:
  "Compute_float spec_helper_Compute transposing_kernel vector_ctx =
       ([Input_Tensor 0, Input_Tensor 1, Helper_Compute [2] [2] False False, Output_Tensor 0 [],
         MlasGemmBatch CblasNoTrans CblasNoTrans 1 1 2
           [\<lparr>gemm_A = Ptr (Tensor_Buffer 0) 0, gemm_lda = 2,
             gemm_B = Ptr (Tensor_Buffer 1) 0, gemm_ldb = 1,
             gemm_C = Ptr (Tensor_Buffer 2) 0, gemm_ldc = 1,
             gemm_alpha = 1, gemm_beta = 0, gemm_BIsPacked = False\<rparr>] 1 0],
        Inr ())"
  by (simp add: Compute_float_def transposing_kernel_def fresh_kernel_def vector_ctx_def
      vector_A_def vector_B_def raw_B_def B_shape_def trans_a_def trans_b_def
      NumDimensions_def spec_helper_vectors Size_def int_to_size_t_def Let_def)

theorem vector_operands_are_not_transposed_witness:
  "Input vector_ctx 0 = Some vector_A \<and> NumDimensions (Shape vector_A) = 1
   \<and> NumDimensions (B_shape transposing_kernel vector_ctx) = 1
   \<and> trans_a_attr transposing_kernel \<and> trans_b_attr transposing_kernel
   \<and> map passed_trans_a (fst (Compute_float spec_helper_Compute transposing_kernel vector_ctx))
        = [None, None, Some False, None, Some False]
   \<and> map passed_trans_b (fst (Compute_float spec_helper_Compute transposing_kernel vector_ctx))
        = [None, None, Some False, None, Some False]"
  using vector_operands_are_not_transposed
          [where ctx = vector_ctx and this = transposing_kernel and hc = spec_helper_Compute]
        Compute_float_vector_example
  by (simp add: vector_ctx_def vector_A_def vector_B_def NumDimensions_def transposing_kernel_def
        fresh_kernel_def B_shape_def raw_B_def)

text \<open>
  What a descriptor of the batch holds, and when the conversion through \<^verbatim>\<open>int\<close> keeps
  a leading dimension.
\<close>

lemma int_to_size_t_small:
  fixes x :: "64 word"
  assumes "x < 2 ^ 31"
  shows "int_to_size_t x = x"
proof -
  have u: "uint x < 2 ^ 31" using assms by (simp add: word_less_def)
  have "uint (ucast x :: 32 word) = take_bit 32 (uint x)"
    by (simp add: unsigned_ucast_eq)
  also have "\<dots> = uint x"
    using u by (simp add: take_bit_int_eq_self)
  finally have low: "uint (ucast x :: 32 word) = uint x" .
  have "- (2 ^ 31) \<le> (0::int)" by simp
  also have "0 \<le> uint x" by simp
  finally have "- (2 ^ 31) \<le> uint x" .
  from this u have "signed_take_bit 31 (uint x) = uint x"
    by (rule signed_take_bit_int_eq_self)
  then have "sint (ucast x :: 32 word) = uint x"
    by (simp add: sint_uint low)
  then show ?thesis
    by (simp add: int_to_size_t_def scast_eq)
qed

lemma Compute_float_descriptor_fields:
  assumes e: "MlasGemmBatch TA TB M N K data n tp \<in> set (fst (Compute_float hc this ctx))"
    and i: "i < length data"
  shows "\<exists>a h. Input ctx 0 = Some a
           \<and> hc (Shape a) (B_shape this ctx) (trans_a this a) (trans_b this ctx) = Inr h
           \<and> M = helper_M h \<and> N = helper_N h \<and> K = helper_K h
           \<and> length data = length (OutputOffsets h)
           \<and> gemm_A (data ! i) = ptr_add (Data a) (LeftOffsets h ! i)
           \<and> gemm_lda (data ! i) = int_to_size_t (if trans_a this a then M else K)
           \<and> gemm_ldb (data ! i) = int_to_size_t (if trans_b this ctx then K else N)
           \<and> gemm_C (data ! i) = ptr_add (Output_Data ctx) (OutputOffsets h ! i)
           \<and> gemm_ldc (data ! i) = N
           \<and> gemm_alpha (data ! i) = alpha_attr this
           \<and> gemm_beta (data ! i) = 0"
proof -
  from Compute_float_events [OF e] obtain a h where
    a: "Input ctx 0 = Some a"
    and h: "hc (Shape a) (B_shape this ctx) (trans_a this a) (trans_b this ctx) = Inr h"
    and fill: "fill_data this h (Data a)
                 (case raw_B this ctx of Some bt \<Rightarrow> Data bt | None \<Rightarrow> Null)
                 (Output_Data ctx)
                 (int_to_size_t (if trans_a this a then helper_M h else helper_K h))
                 (int_to_size_t (if trans_b this ctx then helper_K h else helper_N h))
                 (helper_N h) [0..<length (OutputOffsets h)] = Inr data"
    and M: "M = helper_M h" and N: "N = helper_N h" and K: "K = helper_K h"
    by auto
  have len: "length data = length (OutputOffsets h)" using fill_data_length [OF fill] by simp
  from fill_data_nth [OF fill, of i] i len a h M N K show ?thesis by simp
qed

lemma spec_helper_wide:
  "spec_helper_Compute [2, 2147483648] [2147483648, 1] False False
     = Inr \<lparr>helper_M = 2, helper_N = 1, helper_K = 2147483648, OutputShape = [2, 1],
            LeftOffsets = [0], RightOffsets = [0], OutputOffsets = [0]\<rparr>"
  by (simp add: spec_helper_Compute_def matrix_dims_def pad_left_def)

text \<open>
  C3. The claim gives every descriptor the leading dimension \<open>K\<close> for an A that is not
  transposed. The code converts the leading dimensions of A and B to \<^verbatim>\<open>int\<close> first
  (lines 191 and 192): for A of shape \<open>[2, 2^31]\<close> and B of shape \<open>[2^31, 1]\<close>, where
  \<open>K = 2^31\<close>, the descriptor's leading dimension of A is \<open>2^64 - 2^31\<close>, not \<open>K\<close>.
\<close>

theorem Compute_float_truncates_lda:
  "Compute_float spec_helper_Compute fresh_kernel wide_ctx =
       ([Input_Tensor 0, Input_Tensor 1,
         Helper_Compute [2, 2147483648] [2147483648, 1] False False, Output_Tensor 0 [2, 1],
         MlasGemmBatch CblasNoTrans CblasNoTrans 2 1 2147483648
           [\<lparr>gemm_A = Ptr (Tensor_Buffer 0) 0, gemm_lda = 18446744071562067968,
             gemm_B = Ptr (Tensor_Buffer 1) 0, gemm_ldb = 1,
             gemm_C = Ptr (Tensor_Buffer 2) 0, gemm_ldc = 1,
             gemm_alpha = 1, gemm_beta = 0, gemm_BIsPacked = False\<rparr>] 1 0],
        Inr ())
   \<and> (18446744071562067968 :: 64 word) \<noteq> 2147483648"
  by (simp add: Compute_float_def fresh_kernel_def wide_ctx_def
      wide_A_def wide_B_def raw_B_def B_shape_def trans_a_def trans_b_def
      NumDimensions_def spec_helper_wide Size_def int_to_size_t_def Let_def)

section \<open>The effect of a dispatch on memory\<close>

text \<open>
  Two memories that agree outside the output region still agree there after a batch whose
  descriptors have \<open>\<beta> = 0\<close> and read outside that region, and agree on every cell
  the batch has written.
\<close>

lemma fold_updates_agree:
  assumes "\<forall>p\<in>set ps. v1 p = v2 p"
    and "m1 x = m2 x \<or> x \<in> c ` set ps"
  shows "fold (\<lambda>p m. m(c p := v1 p)) ps m1 x = fold (\<lambda>p m. m(c p := v2 p)) ps m2 x"
  using assms
proof (induction ps arbitrary: m1 m2)
  case Nil
  then show ?case by simp
next
  case (Cons p ps)
  have v: "v1 p = v2 p" using Cons.prems(1) by simp
  have rest: "\<forall>p\<in>set ps. v1 p = v2 p" using Cons.prems(1) by simp
  have "(m1(c p := v1 p)) x = (m2(c p := v2 p)) x \<or> x \<in> c ` set ps"
    using Cons.prems(2) v by auto
  from Cons.IH [of "m1(c p := v1 p)" "m2(c p := v2 p)", OF rest this] show ?case by simp
qed

lemma fold_updates_frame:
  assumes "x \<notin> c ` set ps"
  shows "fold (\<lambda>p m. m(c p := v p)) ps m x = m x"
  using assms by (induction ps arbitrary: m) auto

lemma gemm_one_None:
  "gemm_one layout TA TB M N K d mem = None
     \<longleftrightarrow> gemm_A d = Null \<or> gemm_B d = Null \<or> gemm_C d = Null"
  by (auto simp: gemm_one_def split: pointer.splits)

lemma gemm_value_agree:
  assumes "gemm_beta d = 0" and "\<And>n. m1 (fst a, n) = m2 (fst a, n)"
    and "\<And>n. m1 (fst b, n) = m2 (fst b, n)"
  shows "gemm_value layout TA TB K N d a b c m1 p = gemm_value layout TA TB K N d a b c m2 p"
  using assms by (simp add: gemm_value_def Let_def)

lemma gemm_one_agree:
  assumes beta: "gemm_beta d = 0"
    and ra: "region_of (gemm_A d) \<noteq> Some out" and rb: "region_of (gemm_B d) \<noteq> Some out"
    and agree: "\<And>x. fst x \<noteq> out \<Longrightarrow> m1 x = m2 x"
    and r1: "gemm_one layout TA TB M N K d m1 = Some m1'"
    and r2: "gemm_one layout TA TB M N K d m2 = Some m2'"
    and x: "m1 x = m2 x \<or> x \<in> cells_written M N d"
  shows "m1' x = m2' x"
proof -
  obtain ra' a0 rb' b0 rc c0 where
    A: "gemm_A d = Ptr ra' a0" and B: "gemm_B d = Ptr rb' b0" and C: "gemm_C d = Ptr rc c0"
    using r1 gemm_one_None [of layout TA TB M N K d m1]
    by (cases "gemm_A d"; cases "gemm_B d"; cases "gemm_C d") auto
  have na: "ra' \<noteq> out" and nb: "rb' \<noteq> out" using ra rb A B by auto
  have same_values: "\<forall>p\<in>set (List.product [0..<M] [0..<N]).
       gemm_value layout TA TB K N d (ra', a0) (rb', b0) (rc, c0) m1 p
         = gemm_value layout TA TB K N d (ra', a0) (rb', b0) (rc, c0) m2 p"
    using na nb agree by (intro ballI gemm_value_agree [OF beta]) simp_all
  have x': "m1 x = m2 x \<or> x \<in> c_cell rc c0 (unat (gemm_ldc d)) ` set (List.product [0..<M] [0..<N])"
    using x C by (simp add: cells_written_def)
  have m1': "m1' = fold (\<lambda>p m. m(c_cell rc c0 (unat (gemm_ldc d)) p :=
                gemm_value layout TA TB K N d (ra', a0) (rb', b0) (rc, c0) m1 p))
                  (List.product [0..<M] [0..<N]) m1"
    using r1 by (simp add: gemm_one_def A B C)
  have m2': "m2' = fold (\<lambda>p m. m(c_cell rc c0 (unat (gemm_ldc d)) p :=
                gemm_value layout TA TB K N d (ra', a0) (rb', b0) (rc, c0) m2 p))
                  (List.product [0..<M] [0..<N]) m2"
    using r2 by (simp add: gemm_one_def A B C)
  show ?thesis
    unfolding m1' m2'
    by (rule fold_updates_agree
          [where ?v1.0 = "gemm_value layout TA TB K N d (ra', a0) (rb', b0) (rc, c0) m1"
             and ?v2.0 = "gemm_value layout TA TB K N d (ra', a0) (rb', b0) (rc, c0) m2"
             and c = "c_cell rc c0 (unat (gemm_ldc d))" and ?m1.0 = m1 and ?m2.0 = m2,
           OF same_values x'])
qed

lemma gemm_one_frame:
  assumes "gemm_one layout TA TB M N K d m = Some m'" and "x \<notin> cells_written M N d"
  shows "m' x = m x"
proof -
  obtain ra' a0 rb' b0 rc c0 where
    A: "gemm_A d = Ptr ra' a0" and B: "gemm_B d = Ptr rb' b0" and C: "gemm_C d = Ptr rc c0"
    using assms(1) gemm_one_None [of layout TA TB M N K d m]
    by (cases "gemm_A d"; cases "gemm_B d"; cases "gemm_C d") auto
  have x': "x \<notin> c_cell rc c0 (unat (gemm_ldc d)) ` set (List.product [0..<M] [0..<N])"
    using assms(2) C by (simp add: cells_written_def)
  have "m' = fold (\<lambda>p m'. m'(c_cell rc c0 (unat (gemm_ldc d)) p :=
                gemm_value layout TA TB K N d (ra', a0) (rb', b0) (rc, c0) m p))
                  (List.product [0..<M] [0..<N]) m"
    using assms(1) by (simp add: gemm_one_def A B C)
  then show ?thesis using fold_updates_frame [OF x'] by simp
qed

lemma cells_written_region:
  "x \<in> cells_written M N d \<Longrightarrow> region_of (gemm_C d) = Some (fst x)"
  by (auto simp: cells_written_def c_cell_def split: pointer.splits)

lemma gemm_batch_None:
  "gemm_batch layout TA TB M N K ds mem = None
     \<longleftrightarrow> (\<exists>d\<in>set ds. gemm_A d = Null \<or> gemm_B d = Null \<or> gemm_C d = Null)"
proof (induction ds arbitrary: mem)
  case Nil
  then show ?case by simp
next
  case (Cons d ds)
  show ?case
  proof (cases "gemm_one layout TA TB M N K d mem")
    case None
    then show ?thesis using gemm_one_None [of layout TA TB M N K d mem] by auto
  next
    case (Some mem')
    then show ?thesis using gemm_one_None [of layout TA TB M N K d mem] Cons.IH [of mem']
      by auto
  qed
qed

lemma gemm_batch_agree:
  assumes "\<forall>d\<in>set ds. gemm_beta d = 0 \<and> region_of (gemm_A d) \<noteq> Some out
              \<and> region_of (gemm_B d) \<noteq> Some out \<and> region_of (gemm_C d) = Some out"
    and "\<And>x. fst x \<noteq> out \<Longrightarrow> m1 x = m2 x"
    and "gemm_batch layout TA TB M N K ds m1 = Some m1'"
    and "gemm_batch layout TA TB M N K ds m2 = Some m2'"
    and "m1 x = m2 x \<or> (\<exists>d\<in>set ds. x \<in> cells_written M N d)"
  shows "m1' x = m2' x"
  using assms
proof (induction ds arbitrary: m1 m2)
  case Nil
  then show ?case by simp
next
  case (Cons d ds)
  from Cons.prems(3) obtain n1 where n1: "gemm_one layout TA TB M N K d m1 = Some n1"
    and r1: "gemm_batch layout TA TB M N K ds n1 = Some m1'"
    by (auto split: option.splits)
  from Cons.prems(4) obtain n2 where n2: "gemm_one layout TA TB M N K d m2 = Some n2"
    and r2: "gemm_batch layout TA TB M N K ds n2 = Some m2'"
    by (auto split: option.splits)
  have d: "gemm_beta d = 0" "region_of (gemm_A d) \<noteq> Some out"
    "region_of (gemm_B d) \<noteq> Some out" "region_of (gemm_C d) = Some out"
    using Cons.prems(1) by auto
  have step: "n1 y = n2 y" if "m1 y = m2 y \<or> y \<in> cells_written M N d" for y
    using gemm_one_agree [OF d(1,2,3) Cons.prems(2) n1 n2 that] .
  have off: "n1 y = n2 y" if "fst y \<noteq> out" for y
    using step [of y] Cons.prems(2) [OF that] by simp
  have rest: "\<forall>d\<in>set ds. gemm_beta d = 0 \<and> region_of (gemm_A d) \<noteq> Some out
              \<and> region_of (gemm_B d) \<noteq> Some out \<and> region_of (gemm_C d) = Some out"
    using Cons.prems(1) by simp
  have "n1 x = n2 x \<or> (\<exists>d\<in>set ds. x \<in> cells_written M N d)"
    using Cons.prems(5) step [of x] by auto
  from Cons.IH [OF rest off r1 r2 this] show ?case .
qed

lemma gemm_batch_frame:
  assumes "gemm_batch layout TA TB M N K ds m = Some m'"
    and "\<forall>d\<in>set ds. x \<notin> cells_written M N d"
  shows "m' x = m x"
  using assms
proof (induction ds arbitrary: m)
  case Nil
  then show ?case by simp
next
  case (Cons d ds)
  from Cons.prems(1) obtain n where n: "gemm_one layout TA TB M N K d m = Some n"
    and r: "gemm_batch layout TA TB M N K ds n = Some m'"
    by (auto split: option.splits)
  have "m' x = n x" using Cons.IH [OF r] Cons.prems(2) by simp
  moreover have "n x = m x" using gemm_one_frame [OF n] Cons.prems(2) by simp
  ultimately show ?case by simp
qed

lemma region_of_ptr_add [simp]: "region_of (ptr_add p n) = region_of p"
  by (cases p) simp_all

lemma fill_data_regions:
  "fill_data this h a b y lda ldb N idx = Inr ds \<Longrightarrow> d \<in> set ds \<Longrightarrow>
     region_of (gemm_A d) = region_of a
     \<and> region_of (gemm_B d) = (if get (packed_b this) \<noteq> Null then region_of (get (packed_b this))
                                 else region_of b)
     \<and> region_of (gemm_C d) = region_of y"
  by (induction idx arbitrary: ds) (auto simp: Let_def split: if_splits sum.splits)

lemma tiled_cover:
  fixes i :: nat
  assumes "i < L * (M * N)"
  shows "\<exists>n<L. \<exists>ii<M. \<exists>jj<N. i = n * (M * N) + ii * N + jj"
proof -
  have pos: "0 < M * N" using assms by (cases "M * N = 0") auto
  then have N: "0 < N" by simp
  define n where "n = i div (M * N)"
  define r where "r = i mod (M * N)"
  have "n < L" unfolding n_def using assms pos
    by (simp add: less_mult_imp_div_less)
  moreover have r: "r < M * N" unfolding r_def using pos by simp
  then have "r div N < M" by (simp add: less_mult_imp_div_less)
  moreover have "r mod N < N" using N by simp
  moreover have "i = n * (M * N) + (r div N) * N + r mod N"
  proof -
    have "i = n * (M * N) + r" unfolding n_def r_def by (rule div_mult_mod_eq [symmetric])
    also have "r = (r div N) * N + r mod N" by (rule div_mult_mod_eq [symmetric])
    finally show ?thesis by (simp add: add.assoc)
  qed
  ultimately show ?thesis by blast
qed

lemma Compute_float_success:
  assumes "Compute_float hc this ctx = (es, Inr ())"
    and "Input ctx 0 = Some a"
    and "hc (Shape a) (B_shape this ctx) (trans_a this a) (trans_b this ctx) = Inr h"
  shows "(Size (OutputShape h) = 0 \<and> (\<forall>e\<in>set es. \<not> is_gemm_call e))
       \<or> (Size (OutputShape h) \<noteq> 0 \<and>
           (\<exists>pre data. (\<forall>e\<in>set pre. \<not> is_gemm_call e)
              \<and> fill_data this h (Data a)
                           (case raw_B this ctx of Some bt \<Rightarrow> Data bt | None \<Rightarrow> Null)
                           (Output_Data ctx)
                           (int_to_size_t (if trans_a this a then helper_M h else helper_K h))
                           (int_to_size_t (if trans_b this ctx then helper_K h else helper_N h))
                           (helper_N h) [0..<length (OutputOffsets h)] = Inr data
              \<and> es = pre @ [MlasGemmBatch (if trans_a this a then CblasTrans else CblasNoTrans)
                              (if trans_b this ctx then CblasTrans else CblasNoTrans)
                              (helper_M h) (helper_N h) (helper_K h) data
                              (length (OutputOffsets h)) (OperatorThreadPool ctx)]))"
proof (cases "Size (OutputShape h) = 0")
  case True
  from assms(1) show ?thesis
    unfolding Compute_float_empty [where hc = hc, OF assms(2,3) True] using True
    by (auto split: if_splits)
next
  case False
  from assms(1) show ?thesis
    unfolding Compute_float_nonempty [where hc = hc, OF assms(2,3) False] using False
    by (auto split: sum.splits if_splits)
qed

lemma exec_events_no_gemm:
  "\<forall>e\<in>set es. \<not> is_gemm_call e \<Longrightarrow> exec_events layout es mem = Some mem"
proof (induction es)
  case Nil
  then show ?case by simp
next
  case (Cons e es)
  then show ?case by (cases e) simp_all
qed

lemma exec_events_append:
  "exec_events layout (es @ fs) mem
     = (case exec_events layout es mem of None \<Rightarrow> None | Some m \<Rightarrow> exec_events layout fs m)"
  by (induction es arbitrary: mem) (auto split: option.splits)

lemma fill_data_covers:
  assumes fill: "fill_data this h a b (Ptr out off) lda ldb (helper_N h)
                   [0..<length (OutputOffsets h)] = Inr data"
    and tiled: "output_tiled h"
    and i: "i < nat (Size (OutputShape h))"
  shows "\<exists>d\<in>set data. (out, off + i) \<in> cells_written (unat (helper_M h)) (unat (helper_N h)) d"
proof -
  define M where "M = unat (helper_M h)"
  define N where "N = unat (helper_N h)"
  define L where "L = length (OutputOffsets h)"
  have offs: "OutputOffsets h = map (\<lambda>n. n * (M * N)) [0..<L]"
    and size: "Size (OutputShape h) = int (L * (M * N))"
    using tiled by (simp_all add: output_tiled_def Let_def M_def N_def L_def)
  have "nat (Size (OutputShape h)) = L * (M * N)" unfolding size by (rule nat_int)
  with i have "i < L * (M * N)" by simp
  from tiled_cover [OF this] obtain n ii jj where
    n: "n < L" and ii: "ii < M" and jj: "jj < N" and eq: "i = n * (M * N) + ii * N + jj"
    by blast
  have len: "length data = L" using fill_data_length [OF fill] by (simp add: L_def)
  have off_n: "OutputOffsets h ! n = n * (M * N)"
  proof -
    have "OutputOffsets h ! n = map (\<lambda>n. n * (M * N)) [0..<L] ! n" using offs by simp
    also have "\<dots> = n * (M * N)" using n by simp
    finally show ?thesis .
  qed
  have dn: "gemm_C (data ! n) = Ptr out (off + n * (M * N))"
    and ldc: "gemm_ldc (data ! n) = helper_N h"
    using fill_data_nth [OF fill, of n] n off_n by (simp_all add: L_def)
  have "(ii, jj) \<in> set (List.product [0..<M] [0..<N])" using ii jj by simp
  then have "c_cell out (off + n * (M * N)) N (ii, jj)
               \<in> cells_written M N (data ! n)"
    unfolding cells_written_def dn ldc N_def by (simp del: set_product)
  moreover have "c_cell out (off + n * (M * N)) N (ii, jj) = (out, off + i)"
    by (simp add: c_cell_def eq add.assoc)
  moreover have "data ! n \<in> set data" using n len by simp
  ultimately show ?thesis unfolding M_def N_def by metis
qed

lemma exec_events_single:
  "exec_events layout [e] mem = exec_event layout e mem"
  by (simp split: option.splits)

lemma upt_0_2: "[0..<2] = [0, 1::nat]"
  by (simp add: numeral_2_eq_2)

lemma example_exec:
  "\<exists>m. exec_events row_major
          (fst (Compute_float spec_helper_Compute fresh_kernel example_ctx)) example_mem = Some m
       \<and> map m output_cells = [19, 22, 43, 50]"
  unfolding Compute_float_example
  by (simp add: gemm_one_def gemm_value_def c_cell_def example_mem_def output_cells_def upt_0_2 Let_def)

lemma example_exec_dirty:
  "\<exists>m. exec_events row_major
          (fst (Compute_float spec_helper_Compute fresh_kernel example_ctx)) dirty_mem = Some m
       \<and> map m output_cells = [19, 22, 43, 50]"
  unfolding Compute_float_example
  by (simp add: gemm_one_def gemm_value_def c_cell_def example_mem_def dirty_mem_def output_cells_def upt_0_2 Let_def)

lemma dirty_mem_elsewhere: "fst x \<noteq> Tensor_Buffer 2 \<Longrightarrow> example_mem x = dirty_mem x"
  by (cases x) (simp add: dirty_mem_def)

lemma output_tiled_2x2:
  "output_tiled \<lparr>helper_M = 2, helper_N = 2, helper_K = 2, OutputShape = [2, 2],
            LeftOffsets = [0], RightOffsets = [0], OutputOffsets = [0]\<rparr>"
  by (simp add: output_tiled_def Size_def)

text \<open>
  C5. Every descriptor of the batch has the accumulation multiplier \<open>\<beta> = 0\<close>. Hence, for
  a successful run whose output buffer is a region of its own (apart from A, the raw B and
  the packed buffer) and whose helper result tiles the output as sections 4.1 and 4.2 of
  the spec say, two executions that start from memories differing only inside the output
  region either both have no defined effect (a null operand) or end with identical output
  elements; nothing outside the output region changes.
\<close>

theorem output_never_depends_on_prior_contents:
  "(\<forall>e\<in>set (fst (Compute_float hc this ctx)). \<forall>d\<in>set (descriptors e). gemm_beta d = 0)
   \<and> (Compute_float hc this ctx = (es, Inr ())
        \<and> Input ctx 0 = Some a
        \<and> hc (Shape a) (B_shape this ctx) (trans_a this a) (trans_b this ctx) = Inr h
        \<and> output_tiled h
        \<and> Output_Data ctx = Ptr out off
        \<and> region_of (Data a) \<noteq> Some out
        \<and> (\<forall>bt. raw_B this ctx = Some bt \<longrightarrow> region_of (Data bt) \<noteq> Some out)
        \<and> region_of (get (packed_b this)) \<noteq> Some out
        \<and> (\<forall>x. fst x \<noteq> out \<longrightarrow> mem1 x = mem2 x)
      \<longrightarrow> (exec_events layout es mem1 = None \<longleftrightarrow> exec_events layout es mem2 = None)
          \<and> (\<forall>m1 m2. exec_events layout es mem1 = Some m1 \<and> exec_events layout es mem2 = Some m2
                \<longrightarrow> (\<forall>i<nat (Size (OutputShape h)). m1 (out, off + i) = m2 (out, off + i))
                    \<and> (\<forall>x. fst x \<noteq> out \<longrightarrow> m1 x = mem1 x \<and> m2 x = mem2 x)))"
proof (rule conjI [OF _ impI], goal_cases)
  case 1
  show ?case using Compute_float_descriptors [of _ hc this ctx] by blast
next
  case 2
  then have run: "Compute_float hc this ctx = (es, Inr ())" and a: "Input ctx 0 = Some a"
    and h: "hc (Shape a) (B_shape this ctx) (trans_a this a) (trans_b this ctx) = Inr h"
    by simp_all
  from Compute_float_success [OF run a h] show ?case
  proof
    assume "Size (OutputShape h) = 0 \<and> (\<forall>e\<in>set es. \<not> is_gemm_call e)"
    then show ?case by (simp add: exec_events_no_gemm)
  next
    assume "Size (OutputShape h) \<noteq> 0 \<and>
           (\<exists>pre data. (\<forall>e\<in>set pre. \<not> is_gemm_call e)
              \<and> fill_data this h (Data a)
                           (case raw_B this ctx of Some bt \<Rightarrow> Data bt | None \<Rightarrow> Null)
                           (Output_Data ctx)
                           (int_to_size_t (if trans_a this a then helper_M h else helper_K h))
                           (int_to_size_t (if trans_b this ctx then helper_K h else helper_N h))
                           (helper_N h) [0..<length (OutputOffsets h)] = Inr data
              \<and> es = pre @ [MlasGemmBatch (if trans_a this a then CblasTrans else CblasNoTrans)
                              (if trans_b this ctx then CblasTrans else CblasNoTrans)
                              (helper_M h) (helper_N h) (helper_K h) data
                              (length (OutputOffsets h)) (OperatorThreadPool ctx)])"
    then obtain pre data where pre: "\<forall>e\<in>set pre. \<not> is_gemm_call e"
      and fill: "fill_data this h (Data a)
                           (case raw_B this ctx of Some bt \<Rightarrow> Data bt | None \<Rightarrow> Null)
                           (Output_Data ctx)
                           (int_to_size_t (if trans_a this a then helper_M h else helper_K h))
                           (int_to_size_t (if trans_b this ctx then helper_K h else helper_N h))
                           (helper_N h) [0..<length (OutputOffsets h)] = Inr data"
      and es: "es = pre @ [MlasGemmBatch (if trans_a this a then CblasTrans else CblasNoTrans)
                              (if trans_b this ctx then CblasTrans else CblasNoTrans)
                              (helper_M h) (helper_N h) (helper_K h) data
                              (length (OutputOffsets h)) (OperatorThreadPool ctx)]"
      by blast
    define TA where "TA = (if trans_a this a then CblasTrans else CblasNoTrans)"
    define TB where "TB = (if trans_b this ctx then CblasTrans else CblasNoTrans)"
    define M where "M = unat (helper_M h)"
    define N where "N = unat (helper_N h)"
    define K where "K = unat (helper_K h)"
    have len: "length data = length (OutputOffsets h)" using fill_data_length [OF fill] by simp
    have exec: "exec_events layout es mem = gemm_batch layout TA TB M N K data mem" for mem
      unfolding es exec_events_append exec_events_no_gemm [OF pre] exec_events_single
      by (simp add: len TA_def TB_def M_def N_def K_def)
    from 2 have out: "Output_Data ctx = Ptr out off" and tiled: "output_tiled h"
      and ra: "region_of (Data a) \<noteq> Some out"
      and rb: "\<forall>bt. raw_B this ctx = Some bt \<longrightarrow> region_of (Data bt) \<noteq> Some out"
      and rp: "region_of (get (packed_b this)) \<noteq> Some out"
      by simp_all
    from 2 have agree: "mem1 x = mem2 x" if "fst x \<noteq> out" for x
      using that by blast
    have rb': "region_of (case raw_B this ctx of Some bt \<Rightarrow> Data bt | None \<Rightarrow> Null) \<noteq> Some out"
      using rb by (cases "raw_B this ctx") simp_all
    have ds: "\<forall>d\<in>set data. gemm_beta d = 0 \<and> region_of (gemm_A d) \<noteq> Some out
              \<and> region_of (gemm_B d) \<noteq> Some out \<and> region_of (gemm_C d) = Some out"
    proof
      fix d assume d: "d \<in> set data"
      from fill_data_all [OF fill d] fill_data_regions [OF fill d] ra rb' rp out
      show "gemm_beta d = 0 \<and> region_of (gemm_A d) \<noteq> Some out
              \<and> region_of (gemm_B d) \<noteq> Some out \<and> region_of (gemm_C d) = Some out"
        by (simp split: if_splits)
    qed
    have none: "exec_events layout es mem1 = None \<longleftrightarrow> exec_events layout es mem2 = None"
      unfolding exec gemm_batch_None ..
    have some: "(\<forall>i<nat (Size (OutputShape h)). m1 (out, off + i) = m2 (out, off + i))
                    \<and> (\<forall>x. fst x \<noteq> out \<longrightarrow> m1 x = mem1 x \<and> m2 x = mem2 x)"
      if r1: "exec_events layout es mem1 = Some m1" and r2: "exec_events layout es mem2 = Some m2"
      for m1 m2
    proof (intro conjI allI impI)
      fix i assume "i < nat (Size (OutputShape h))"
      from fill_data_covers [OF fill [unfolded out] tiled this]
      have "\<exists>d\<in>set data. (out, off + i) \<in> cells_written M N d" by (simp add: M_def N_def)
      then show "m1 (out, off + i) = m2 (out, off + i)"
        using gemm_batch_agree [OF ds agree r1 [unfolded exec] r2 [unfolded exec]] by blast
    next
      fix x :: "region \<times> nat" assume x: "fst x \<noteq> out"
      have "\<forall>d\<in>set data. x \<notin> cells_written M N d"
        using ds cells_written_region [of x M N] x by auto
      then show "m1 x = mem1 x" "m2 x = mem2 x"
        using gemm_batch_frame [OF r1 [unfolded exec]] gemm_batch_frame [OF r2 [unfolded exec]]
        by simp_all
    qed
    from none some show ?case by blast
  qed
qed

theorem output_never_depends_on_prior_contents_witness:
  "Compute_float spec_helper_Compute fresh_kernel example_ctx =
     ([Input_Tensor 0, Input_Tensor 1, Helper_Compute [2, 2] [2, 2] False False,
       Output_Tensor 0 [2, 2],
       MlasGemmBatch CblasNoTrans CblasNoTrans 2 2 2
         [\<lparr>gemm_A = Ptr (Tensor_Buffer 0) 0, gemm_lda = 2,
           gemm_B = Ptr (Tensor_Buffer 1) 0, gemm_ldb = 2,
           gemm_C = Ptr (Tensor_Buffer 2) 0, gemm_ldc = 2,
           gemm_alpha = 1, gemm_beta = 0, gemm_BIsPacked = False\<rparr>] 1 0],
      Inr ())
   \<and> map example_mem output_cells = [0, 0, 0, 0]
   \<and> map dirty_mem output_cells = [99, 99, 99, 99]
   \<and> (\<exists>m1 m2.
         exec_events row_major (fst (Compute_float spec_helper_Compute fresh_kernel example_ctx))
           example_mem = Some m1
         \<and> exec_events row_major (fst (Compute_float spec_helper_Compute fresh_kernel example_ctx))
             dirty_mem = Some m2
         \<and> map m1 output_cells = [19, 22, 43, 50]
         \<and> map m2 output_cells = [19, 22, 43, 50])"
proof -
  let ?h = "\<lparr>helper_M = 2, helper_N = 2, helper_K = 2, OutputShape = [2, 2],
             LeftOffsets = [0], RightOffsets = [0], OutputOffsets = [0]\<rparr>"
  let ?es = "fst (Compute_float spec_helper_Compute fresh_kernel example_ctx)"
  have run: "Compute_float spec_helper_Compute fresh_kernel example_ctx = (?es, Inr ())"
    by (simp add: Compute_float_example)
  have a: "Input example_ctx 0 = Some example_A"
    by (simp add: example_ctx_def)
  have h: "spec_helper_Compute (Shape example_A) (B_shape fresh_kernel example_ctx)
             (trans_a fresh_kernel example_A) (trans_b fresh_kernel example_ctx) = Inr ?h"
    by (simp add: example_A_def example_B_def example_ctx_def fresh_kernel_def B_shape_def
          raw_B_def trans_a_def trans_b_def spec_helper_2x2)
  have out: "Output_Data example_ctx = Ptr (Tensor_Buffer 2) 0"
    by (simp add: example_ctx_def)
  have ra: "region_of (Data example_A) \<noteq> Some (Tensor_Buffer 2)"
    by (simp add: example_A_def)
  have rb: "\<forall>bt. raw_B fresh_kernel example_ctx = Some bt
              \<longrightarrow> region_of (Data bt) \<noteq> Some (Tensor_Buffer 2)"
    by (simp add: raw_B_def fresh_kernel_def example_ctx_def example_B_def)
  have rp: "region_of (get (packed_b fresh_kernel)) \<noteq> Some (Tensor_Buffer 2)"
    by (simp add: fresh_kernel_def)
  have agree: "\<forall>x. fst x \<noteq> Tensor_Buffer 2 \<longrightarrow> example_mem x = dirty_mem x"
    using dirty_mem_elsewhere by blast
  from example_exec obtain m1 where
    m1v: "exec_events row_major ?es example_mem = Some m1
            \<and> map m1 output_cells = [19, 22, 43, 50]" ..
  from example_exec_dirty obtain m2 where
    m2v: "exec_events row_major ?es dirty_mem = Some m2
            \<and> map m2 output_cells = [19, 22, 43, 50]" ..
  note m1 = m1v [THEN conjunct1] and v1 = m1v [THEN conjunct2] and m2 = m2v [THEN conjunct1]
  from output_never_depends_on_prior_contents
          [where hc = spec_helper_Compute and this = fresh_kernel and ctx = example_ctx
             and a = example_A and out = "Tensor_Buffer 2" and off = 0 and es = ?es
             and ?mem1.0 = example_mem and ?mem2.0 = dirty_mem and layout = row_major
             and h = ?h]
  have "Compute_float spec_helper_Compute fresh_kernel example_ctx = (?es, Inr ())
        \<and> Input example_ctx 0 = Some example_A
        \<and> spec_helper_Compute (Shape example_A) (B_shape fresh_kernel example_ctx)
             (trans_a fresh_kernel example_A) (trans_b fresh_kernel example_ctx) = Inr ?h
        \<and> output_tiled ?h
        \<and> Output_Data example_ctx = Ptr (Tensor_Buffer 2) 0
        \<and> region_of (Data example_A) \<noteq> Some (Tensor_Buffer 2)
        \<and> (\<forall>bt. raw_B fresh_kernel example_ctx = Some bt
               \<longrightarrow> region_of (Data bt) \<noteq> Some (Tensor_Buffer 2))
        \<and> region_of (get (packed_b fresh_kernel)) \<noteq> Some (Tensor_Buffer 2)
        \<and> (\<forall>x. fst x \<noteq> Tensor_Buffer 2 \<longrightarrow> example_mem x = dirty_mem x)
      \<longrightarrow> (exec_events row_major ?es example_mem = None
             \<longleftrightarrow> exec_events row_major ?es dirty_mem = None)
          \<and> (\<forall>m1 m2. exec_events row_major ?es example_mem = Some m1
                      \<and> exec_events row_major ?es dirty_mem = Some m2
                \<longrightarrow> (\<forall>i<nat (Size (OutputShape ?h)).
                       m1 (Tensor_Buffer 2, 0 + i) = m2 (Tensor_Buffer 2, 0 + i))
                    \<and> (\<forall>x. fst x \<noteq> Tensor_Buffer 2
                          \<longrightarrow> m1 x = example_mem x \<and> m2 x = dirty_mem x))"
    by (rule conjunct2)
  with run a h output_tiled_2x2 out ra rb rp agree m1 m2
  have same: "\<forall>i<nat (Size (OutputShape ?h)). m1 (Tensor_Buffer 2, 0 + i) = m2 (Tensor_Buffer 2, 0 + i)"
    by blast
  have "m2 (Tensor_Buffer 2, i) = m1 (Tensor_Buffer 2, i)" if "i < 4" for i
    using same that by (simp add: Size_def)
  from this [of 0] this [of 1] this [of 2] this [of 3]
  have v2: "map m2 output_cells = map m1 output_cells"
    by (simp add: output_cells_def)
  have "map example_mem output_cells = [0, 0, 0, 0]"
    and "map dirty_mem output_cells = [99, 99, 99, 99]"
    by (simp_all add: output_cells_def example_mem_def dirty_mem_def)
  with m1 m2 v1 v2 Compute_float_example show ?thesis
    by (intro conjI exI [of _ m1] exI [of _ m2]) simp_all
qed

section \<open>Runs of the generic kernel\<close>

lemma matmul_loop_ok:
  assumes "\<forall>i\<in>set idx. i < length (LeftOffsets h) \<and> i < length (RightOffsets h)
             \<and> i < length (OutputOffsets h)"
  shows "matmul_loop h a b y tp idx
           = (map (\<lambda>i. math_MatMul (ucast (helper_M h)) (ucast (helper_N h)) (ucast (helper_K h))
                          (ptr_add a (LeftOffsets h ! i)) (ptr_add b (RightOffsets h ! i))
                          (ptr_add y (OutputOffsets h ! i)) tp) idx,
              Inr ())"
  using assms by (induction idx) simp_all

lemma matmul_loop_events:
  "e \<in> set (fst (matmul_loop h a b y tp idx)) \<Longrightarrow>
     \<exists>i\<in>set idx. e = math_MatMul (ucast (helper_M h)) (ucast (helper_N h)) (ucast (helper_K h))
                          (ptr_add a (LeftOffsets h ! i)) (ptr_add b (RightOffsets h ! i))
                          (ptr_add y (OutputOffsets h ! i)) tp"
  by (induction idx arbitrary: e) (auto simp: Let_def split: if_splits prod.splits)

lemma Compute_generic_no_input:
  "Input ctx 0 = None \<or> Input ctx 1 = None \<Longrightarrow>
   Compute_generic hc ctx = ([Input_Tensor 0, Input_Tensor 1], Inl Null_Dereference)"
  by (cases "Input ctx 0"; cases "Input ctx 1") (auto simp: Compute_generic_def)

lemma Compute_generic_helper_error:
  "Input ctx 0 = Some a \<Longrightarrow> Input ctx 1 = Some b \<Longrightarrow>
   hc (Shape a) (Shape b) False False = Inl err \<Longrightarrow>
   Compute_generic hc ctx
     = ([Input_Tensor 0, Input_Tensor 1, Helper_Compute (Shape a) (Shape b) False False],
        Inl err)"
  by (simp add: Compute_generic_def)

lemma Compute_generic_empty:
  "Input ctx 0 = Some a \<Longrightarrow> Input ctx 1 = Some b \<Longrightarrow>
   hc (Shape a) (Shape b) False False = Inr h \<Longrightarrow> Size (OutputShape h) = 0 \<Longrightarrow>
   Compute_generic hc ctx
     = ([Input_Tensor 0, Input_Tensor 1, Helper_Compute (Shape a) (Shape b) False False,
         Output_Tensor 0 (OutputShape h)],
        Inr ())"
  by (simp add: Compute_generic_def)

lemma Compute_generic_nonempty:
  "Input ctx 0 = Some a \<Longrightarrow> Input ctx 1 = Some b \<Longrightarrow>
   hc (Shape a) (Shape b) False False = Inr h \<Longrightarrow> Size (OutputShape h) \<noteq> 0 \<Longrightarrow>
   Compute_generic hc ctx
     = ([Input_Tensor 0, Input_Tensor 1, Helper_Compute (Shape a) (Shape b) False False,
         Output_Tensor 0 (OutputShape h)]
          @ fst (matmul_loop h (Data a) (Data b) (Output_Data ctx) (OperatorThreadPool ctx)
                   [0..<length (OutputOffsets h)]),
        snd (matmul_loop h (Data a) (Data b) (Output_Data ctx) (OperatorThreadPool ctx)
               [0..<length (OutputOffsets h)]))"
  by (simp add: Compute_generic_def Let_def split: prod.splits)

lemma Compute_generic_events:
  assumes "e \<in> set (fst (Compute_generic hc ctx))"
  shows "e = Input_Tensor 0 \<or> e = Input_Tensor 1
     \<or> (\<exists>a b. Input ctx 0 = Some a \<and> Input ctx 1 = Some b \<and>
          (e = Helper_Compute (Shape a) (Shape b) False False
           \<or> (\<exists>h. hc (Shape a) (Shape b) False False = Inr h \<and>
                (e = Output_Tensor 0 (OutputShape h)
                 \<or> (\<exists>i<length (OutputOffsets h).
                       e = math_MatMul (ucast (helper_M h)) (ucast (helper_N h))
                             (ucast (helper_K h))
                             (ptr_add (Data a) (LeftOffsets h ! i))
                             (ptr_add (Data b) (RightOffsets h ! i))
                             (ptr_add (Output_Data ctx) (OutputOffsets h ! i))
                             (OperatorThreadPool ctx))))))"
proof (cases "Input ctx 0 = None \<or> Input ctx 1 = None")
  case True
  from assms show ?thesis unfolding Compute_generic_no_input [OF True] by auto
next
  case False
  then obtain a b where a: "Input ctx 0 = Some a" and b: "Input ctx 1 = Some b" by auto
  show ?thesis
  proof (cases "hc (Shape a) (Shape b) False False")
    case (Inl err)
    from assms show ?thesis
      unfolding Compute_generic_helper_error [where hc = hc, OF a b Inl] using a b by auto
  next
    case (Inr h)
    show ?thesis
    proof (cases "Size (OutputShape h) = 0")
      case True
      from assms show ?thesis
        unfolding Compute_generic_empty [where hc = hc, OF a b Inr True] using a b Inr by auto
    next
      case False
      from assms show ?thesis
        unfolding Compute_generic_nonempty [where hc = hc, OF a b Inr False]
        using a b Inr matmul_loop_events [of e h "Data a" "Data b" "Output_Data ctx"
            "OperatorThreadPool ctx" "[0..<length (OutputOffsets h)]"]
        by auto
    qed
  qed
qed

lemma kernel_class_cases:
  "kernel_class v ty =
     (if v < 1 then None
      else if ty = float32 then Some T_float
      else if ty = float64 then Some T_double
      else if v < 9 then None
      else if ty = int32 \<or> ty = uint32 then Some T_int32_t
      else Some T_int64_t)"
  by (cases ty) (auto simp: kernel_class_def registrations_def)

lemma spec_helper_empty:
  "spec_helper_Compute [0, 2] [2, 2] False False
     = Inr \<lparr>helper_M = 0, helper_N = 2, helper_K = 2, OutputShape = [0, 2],
            LeftOffsets = [0], RightOffsets = [0], OutputOffsets = [0]\<rparr>"
  by (simp add: spec_helper_Compute_def matrix_dims_def pad_left_def)

lemma Compute_generic_example:
  "Compute_generic spec_helper_Compute example_ctx =
     ([Input_Tensor 0, Input_Tensor 1, Helper_Compute [2, 2] [2, 2] False False,
       Output_Tensor 0 [2, 2],
       math_MatMul 2 2 2 (Ptr (Tensor_Buffer 0) 0) (Ptr (Tensor_Buffer 1) 0)
         (Ptr (Tensor_Buffer 2) 0) 0],
      Inr ())"
  by (simp add: Compute_generic_def example_ctx_def example_A_def example_B_def
      spec_helper_2x2 Size_def Let_def)

lemma Compute_float_doubling_example:
  "Compute_float spec_helper_Compute doubling_kernel example_ctx =
     ([Input_Tensor 0, Input_Tensor 1, Helper_Compute [2, 2] [2, 2] False False,
       Output_Tensor 0 [2, 2],
       MlasGemmBatch CblasNoTrans CblasNoTrans 2 2 2
         [\<lparr>gemm_A = Ptr (Tensor_Buffer 0) 0, gemm_lda = 2,
           gemm_B = Ptr (Tensor_Buffer 1) 0, gemm_ldb = 2,
           gemm_C = Ptr (Tensor_Buffer 2) 0, gemm_ldc = 2,
           gemm_alpha = 2, gemm_beta = 0, gemm_BIsPacked = False\<rparr>] 1 0],
      Inr ())"
  by (simp add: Compute_float_def doubling_kernel_def fresh_kernel_def example_ctx_def
      example_A_def example_B_def raw_B_def B_shape_def trans_a_def trans_b_def
      NumDimensions_def spec_helper_2x2 Size_def int_to_size_t_def Let_def)

lemma kernel_class_13_float64: "kernel_class 13 float64 = Some T_double"
  by (simp add: kernel_class_cases)

lemma Compute_float_passed_trans:
  assumes "e \<in> set (fst (Compute_float hc this ctx))"
  shows "(\<forall>a. Input ctx 0 = Some a \<longrightarrow>
            passed_trans_a e = None \<or> passed_trans_a e = Some (trans_a this a))
         \<and> (passed_trans_b e = None \<or> passed_trans_b e = Some (trans_b this ctx))"
  using Compute_float_events [OF assms] by (elim disjE exE conjE) simp_all

section \<open>Properties of both kernels\<close>

text \<open>
  C4. When the shapes resolve to an output shape with no elements, \<^verbatim>\<open>Compute\<close> returns
  success after asking the context for the output tensor of that shape, and issues no GEMM
  call, so memory is left as it was; this holds for the float kernel and for the generic
  kernel.
\<close>

theorem empty_output_skips_the_dispatch:
  "(Input ctx 0 = Some a
      \<and> hc (Shape a) (B_shape this ctx) (trans_a this a) (trans_b this ctx) = Inr h
      \<and> Size (OutputShape h) = 0
    \<longrightarrow> Compute_float hc this ctx
          = (Input_Tensor 0 # (if get (packed_b this) \<noteq> Null then [] else [Input_Tensor 1])
               @ [Helper_Compute (Shape a) (B_shape this ctx) (trans_a this a) (trans_b this ctx),
                  Output_Tensor 0 (OutputShape h)],
             Inr ())
        \<and> (\<forall>e\<in>set (fst (Compute_float hc this ctx)). \<not> is_gemm_call e)
        \<and> exec_events layout (fst (Compute_float hc this ctx)) mem = Some mem)
   \<and> (Input ctx 0 = Some a \<and> Input ctx 1 = Some b
      \<and> hc (Shape a) (Shape b) False False = Inr g
      \<and> Size (OutputShape g) = 0
    \<longrightarrow> Compute_generic hc ctx
          = ([Input_Tensor 0, Input_Tensor 1, Helper_Compute (Shape a) (Shape b) False False,
              Output_Tensor 0 (OutputShape g)],
             Inr ())
        \<and> (\<forall>e\<in>set (fst (Compute_generic hc ctx)). \<not> is_gemm_call e)
        \<and> exec_events layout (fst (Compute_generic hc ctx)) mem = Some mem)"
proof (intro conjI impI)
  assume f: "Input ctx 0 = Some a
      \<and> hc (Shape a) (B_shape this ctx) (trans_a this a) (trans_b this ctx) = Inr h
      \<and> Size (OutputShape h) = 0"
  then have run: "Compute_float hc this ctx
          = (Input_Tensor 0 # (if get (packed_b this) \<noteq> Null then [] else [Input_Tensor 1])
               @ [Helper_Compute (Shape a) (B_shape this ctx) (trans_a this a) (trans_b this ctx),
                  Output_Tensor 0 (OutputShape h)],
             Inr ())"
    using Compute_float_empty [where hc = hc and this = this and ctx = ctx and a = a and h = h]
    by blast
  show "Compute_float hc this ctx
          = (Input_Tensor 0 # (if get (packed_b this) \<noteq> Null then [] else [Input_Tensor 1])
               @ [Helper_Compute (Shape a) (B_shape this ctx) (trans_a this a) (trans_b this ctx),
                  Output_Tensor 0 (OutputShape h)],
             Inr ())"
    by (rule run)
  show quiet: "\<forall>e\<in>set (fst (Compute_float hc this ctx)). \<not> is_gemm_call e"
    unfolding run by simp
  show "exec_events layout (fst (Compute_float hc this ctx)) mem = Some mem"
    by (rule exec_events_no_gemm [OF quiet])
next
  assume g: "Input ctx 0 = Some a \<and> Input ctx 1 = Some b
      \<and> hc (Shape a) (Shape b) False False = Inr g
      \<and> Size (OutputShape g) = 0"
  then have run: "Compute_generic hc ctx
          = ([Input_Tensor 0, Input_Tensor 1, Helper_Compute (Shape a) (Shape b) False False,
              Output_Tensor 0 (OutputShape g)],
             Inr ())"
    using Compute_generic_empty [where hc = hc and ctx = ctx and a = a and b = b and h = g]
    by blast
  show "Compute_generic hc ctx
          = ([Input_Tensor 0, Input_Tensor 1, Helper_Compute (Shape a) (Shape b) False False,
              Output_Tensor 0 (OutputShape g)],
             Inr ())"
    by (rule run)
  show quiet: "\<forall>e\<in>set (fst (Compute_generic hc ctx)). \<not> is_gemm_call e"
    unfolding run by simp
  show "exec_events layout (fst (Compute_generic hc ctx)) mem = Some mem"
    by (rule exec_events_no_gemm [OF quiet])
qed

theorem empty_output_skips_the_dispatch_witness:
  "Input empty_ctx 0 = Some empty_A \<and> Input empty_ctx 1 = Some example_B
   \<and> spec_helper_Compute [0, 2] [2, 2] False False
       = Inr \<lparr>helper_M = 0, helper_N = 2, helper_K = 2, OutputShape = [0, 2],
              LeftOffsets = [0], RightOffsets = [0], OutputOffsets = [0]\<rparr>
   \<and> Size [0, 2] = 0
   \<and> Compute_float spec_helper_Compute fresh_kernel empty_ctx
       = ([Input_Tensor 0, Input_Tensor 1, Helper_Compute [0, 2] [2, 2] False False,
           Output_Tensor 0 [0, 2]], Inr ())
   \<and> Compute_generic spec_helper_Compute empty_ctx
       = ([Input_Tensor 0, Input_Tensor 1, Helper_Compute [0, 2] [2, 2] False False,
           Output_Tensor 0 [0, 2]], Inr ())
   \<and> exec_events row_major (fst (Compute_float spec_helper_Compute fresh_kernel empty_ctx))
        dirty_mem = Some dirty_mem
   \<and> exec_events row_major (fst (Compute_generic spec_helper_Compute empty_ctx))
        dirty_mem = Some dirty_mem"
  using empty_output_skips_the_dispatch
          [where ctx = empty_ctx and a = empty_A and b = example_B and hc = spec_helper_Compute
             and this = fresh_kernel and layout = row_major and mem = dirty_mem
             and h = "\<lparr>helper_M = 0, helper_N = 2, helper_K = 2, OutputShape = [0, 2],
                        LeftOffsets = [0], RightOffsets = [0], OutputOffsets = [0]\<rparr>"
             and g = "\<lparr>helper_M = 0, helper_N = 2, helper_K = 2, OutputShape = [0, 2],
                        LeftOffsets = [0], RightOffsets = [0], OutputOffsets = [0]\<rparr>"]
        spec_helper_empty
  by (simp add: empty_ctx_def empty_A_def example_B_def fresh_kernel_def B_shape_def raw_B_def
        trans_a_def trans_b_def NumDimensions_def Size_def)

text \<open>
  C1, as stated: \<^verbatim>\<open>Compute\<close> for 64-bit floating point is the full float path. The kernel
  registered for \<^verbatim>\<open>double\<close> is an instance of the template body, which has no
  attributes: on the \<open>2 \<times> 2\<close> example with \<open>\<alpha> = 2\<close> it issues one plain
  \<^verbatim>\<open>math::MatMul\<close> call and stores \<open>A B\<close>, where the full path issues a batched GEMM
  and stores \<open>2 A B\<close>.
\<close>

theorem float64_runs_the_generic_body:
  "Compute_for 13 float64 spec_helper_Compute doubling_kernel example_ctx
     = ([Input_Tensor 0, Input_Tensor 1, Helper_Compute [2, 2] [2, 2] False False,
         Output_Tensor 0 [2, 2],
         math_MatMul 2 2 2 (Ptr (Tensor_Buffer 0) 0) (Ptr (Tensor_Buffer 1) 0)
           (Ptr (Tensor_Buffer 2) 0) 0],
        Inr ())
   \<and> Compute_for 13 float64 spec_helper_Compute doubling_kernel example_ctx
       \<noteq> Compute_float spec_helper_Compute doubling_kernel example_ctx
   \<and> (\<exists>m. exec_events row_major
              (fst (Compute_for 13 float64 spec_helper_Compute doubling_kernel example_ctx))
              example_mem = Some m
          \<and> map m output_cells = [19, 22, 43, 50])
   \<and> (\<exists>m. exec_events row_major
              (fst (Compute_float spec_helper_Compute doubling_kernel example_ctx))
              example_mem = Some m
          \<and> map m output_cells = [38, 44, 86, 100])"
proof -
  have run: "Compute_for 13 float64 spec_helper_Compute doubling_kernel example_ctx
     = ([Input_Tensor 0, Input_Tensor 1, Helper_Compute [2, 2] [2, 2] False False,
         Output_Tensor 0 [2, 2],
         math_MatMul 2 2 2 (Ptr (Tensor_Buffer 0) 0) (Ptr (Tensor_Buffer 1) 0)
           (Ptr (Tensor_Buffer 2) 0) 0],
        Inr ())"
    by (simp add: Compute_for_def kernel_class_13_float64 Compute_generic_example)
  have differ: "Compute_for 13 float64 spec_helper_Compute doubling_kernel example_ctx
       \<noteq> Compute_float spec_helper_Compute doubling_kernel example_ctx"
    unfolding run Compute_float_doubling_example by simp
  have plain: "\<exists>m. exec_events row_major
              (fst (Compute_for 13 float64 spec_helper_Compute doubling_kernel example_ctx))
              example_mem = Some m
          \<and> map m output_cells = [19, 22, 43, 50]"
    unfolding run
    by (simp add: gemm_one_def gemm_value_def c_cell_def example_mem_def output_cells_def
          upt_0_2 Let_def)
  have scaled: "\<exists>m. exec_events row_major
              (fst (Compute_float spec_helper_Compute doubling_kernel example_ctx))
              example_mem = Some m
          \<and> map m output_cells = [38, 44, 86, 100]"
    unfolding Compute_float_doubling_example
    by (simp add: gemm_one_def gemm_value_def c_cell_def example_mem_def output_cells_def
          upt_0_2 Let_def)
  from run differ plain scaled show ?thesis by blast
qed

text \<open>
  C1, amended. A kernel is registered for float32 and float64 from operator version 1 and
  for the 32- and 64-bit integer types from version 9. Only float32 takes the full path:
  its descriptors carry the \<^verbatim>\<open>alpha\<close> attribute and the packed buffer when one is held,
  and the transpose flags it passes on are the attributes (off for a vector). Every other
  registered element type, float64 included, takes the plain path, which ignores the
  float kernel's attributes and packed buffer: it always fetches the raw B, resolves the
  shapes without transposition, and issues one plain matrix multiply per batch at the
  left, right and output offsets of that batch.
\<close>

theorem Compute_path_by_element_type:
  "(kernel_class v ty \<noteq> None \<longleftrightarrow> 1 \<le> v \<and> (ty = float32 \<or> ty = float64 \<or> 9 \<le> v))
   \<and> (kernel_class v float32 \<noteq> None \<longrightarrow>
        Compute_for v float32 hc this ctx = Compute_float hc this ctx)
   \<and> (\<forall>e\<in>set (fst (Compute_float hc this ctx)).
        (\<forall>d\<in>set (descriptors e).
            gemm_alpha d = alpha_attr this
            \<and> gemm_BIsPacked d = (get (packed_b this) \<noteq> Null)
            \<and> (get (packed_b this) \<noteq> Null \<longrightarrow> gemm_B d = get (packed_b this)))
        \<and> (\<forall>a. Input ctx 0 = Some a \<and> passed_trans_a e \<noteq> None \<longrightarrow>
               passed_trans_a e = Some (trans_a_attr this \<and> NumDimensions (Shape a) \<noteq> 1))
        \<and> (passed_trans_b e \<noteq> None \<longrightarrow>
               passed_trans_b e
                 = Some (trans_b_attr this \<and> NumDimensions (B_shape this ctx) \<noteq> 1)))
   \<and> (ty \<noteq> float32 \<and> kernel_class v ty \<noteq> None \<longrightarrow>
        Compute_for v ty hc this ctx = Compute_generic hc ctx)
   \<and> (\<forall>e\<in>set (fst (Compute_generic hc ctx)).
        descriptors e = [] \<and> passed_trans_a e \<noteq> Some True \<and> passed_trans_b e \<noteq> Some True)
   \<and> Input_Tensor 1 \<in> set (fst (Compute_generic hc ctx))
   \<and> (Input ctx 0 = Some a \<and> Input ctx 1 = Some b
        \<and> hc (Shape a) (Shape b) False False = Inr h \<and> Size (OutputShape h) \<noteq> 0
        \<and> length (OutputOffsets h) \<le> length (LeftOffsets h)
        \<and> length (OutputOffsets h) \<le> length (RightOffsets h)
      \<longrightarrow> Compute_generic hc ctx
            = ([Input_Tensor 0, Input_Tensor 1, Helper_Compute (Shape a) (Shape b) False False,
                Output_Tensor 0 (OutputShape h)]
                 @ map (\<lambda>i. math_MatMul (ucast (helper_M h)) (ucast (helper_N h))
                               (ucast (helper_K h))
                               (ptr_add (Data a) (LeftOffsets h ! i))
                               (ptr_add (Data b) (RightOffsets h ! i))
                               (ptr_add (Output_Data ctx) (OutputOffsets h ! i))
                               (OperatorThreadPool ctx))
                     [0..<length (OutputOffsets h)],
               Inr ()))"
proof -
  have registered: "kernel_class v ty \<noteq> None \<longleftrightarrow> 1 \<le> v \<and> (ty = float32 \<or> ty = float64 \<or> 9 \<le> v)"
    by (auto simp: kernel_class_cases)
  have float: "Compute_for v float32 hc this ctx = Compute_float hc this ctx"
    if "kernel_class v float32 \<noteq> None"
    using that by (auto simp: Compute_for_def kernel_class_cases split: if_splits)
  have full: "(\<forall>d\<in>set (descriptors e).
            gemm_alpha d = alpha_attr this
            \<and> gemm_BIsPacked d = (get (packed_b this) \<noteq> Null)
            \<and> (get (packed_b this) \<noteq> Null \<longrightarrow> gemm_B d = get (packed_b this)))
        \<and> (\<forall>a. Input ctx 0 = Some a \<and> passed_trans_a e \<noteq> None \<longrightarrow>
               passed_trans_a e = Some (trans_a_attr this \<and> NumDimensions (Shape a) \<noteq> 1))
        \<and> (passed_trans_b e \<noteq> None \<longrightarrow>
               passed_trans_b e
                 = Some (trans_b_attr this \<and> NumDimensions (B_shape this ctx) \<noteq> 1))"
    if e: "e \<in> set (fst (Compute_float hc this ctx))" for e
  proof (intro conjI)
    show "\<forall>d\<in>set (descriptors e).
            gemm_alpha d = alpha_attr this
            \<and> gemm_BIsPacked d = (get (packed_b this) \<noteq> Null)
            \<and> (get (packed_b this) \<noteq> Null \<longrightarrow> gemm_B d = get (packed_b this))"
      using Compute_float_descriptors [OF e] by blast
    show "\<forall>a. Input ctx 0 = Some a \<and> passed_trans_a e \<noteq> None \<longrightarrow>
               passed_trans_a e = Some (trans_a_attr this \<and> NumDimensions (Shape a) \<noteq> 1)"
      using Compute_float_passed_trans [OF e] by (auto simp: trans_a_def)
    show "passed_trans_b e \<noteq> None \<longrightarrow>
               passed_trans_b e
                 = Some (trans_b_attr this \<and> NumDimensions (B_shape this ctx) \<noteq> 1)"
      using Compute_float_passed_trans [OF e] by (auto simp: trans_b_def)
  qed
  have generic: "Compute_for v ty hc this ctx = Compute_generic hc ctx"
    if "ty \<noteq> float32 \<and> kernel_class v ty \<noteq> None"
    using that by (auto simp: Compute_for_def kernel_class_cases split: if_splits)
  have plain: "descriptors e = [] \<and> passed_trans_a e \<noteq> Some True \<and> passed_trans_b e \<noteq> Some True"
    if e: "e \<in> set (fst (Compute_generic hc ctx))" for e
    using Compute_generic_events [OF e] by auto
  have reads: "Input_Tensor 1 \<in> set (fst (Compute_generic hc ctx))"
  proof (cases "Input ctx 0 = None \<or> Input ctx 1 = None")
    case True
    show ?thesis unfolding Compute_generic_no_input [OF True] by simp
  next
    case False
    then obtain a b where a: "Input ctx 0 = Some a" and b: "Input ctx 1 = Some b" by auto
    show ?thesis
    proof (cases "hc (Shape a) (Shape b) False False")
      case (Inl err)
      show ?thesis unfolding Compute_generic_helper_error [where hc = hc, OF a b Inl] by simp
    next
      case (Inr g)
      show ?thesis
      proof (cases "Size (OutputShape g) = 0")
        case True
        show ?thesis unfolding Compute_generic_empty [where hc = hc, OF a b Inr True] by simp
      next
        case False
        show ?thesis unfolding Compute_generic_nonempty [where hc = hc, OF a b Inr False] by simp
      qed
    qed
  qed
  have loop: "Compute_generic hc ctx
            = ([Input_Tensor 0, Input_Tensor 1, Helper_Compute (Shape a) (Shape b) False False,
                Output_Tensor 0 (OutputShape h)]
                 @ map (\<lambda>i. math_MatMul (ucast (helper_M h)) (ucast (helper_N h))
                               (ucast (helper_K h))
                               (ptr_add (Data a) (LeftOffsets h ! i))
                               (ptr_add (Data b) (RightOffsets h ! i))
                               (ptr_add (Output_Data ctx) (OutputOffsets h ! i))
                               (OperatorThreadPool ctx))
                     [0..<length (OutputOffsets h)],
               Inr ())"
    if "Input ctx 0 = Some a \<and> Input ctx 1 = Some b
        \<and> hc (Shape a) (Shape b) False False = Inr h \<and> Size (OutputShape h) \<noteq> 0
        \<and> length (OutputOffsets h) \<le> length (LeftOffsets h)
        \<and> length (OutputOffsets h) \<le> length (RightOffsets h)"
  proof -
    from that have a: "Input ctx 0 = Some a" and b: "Input ctx 1 = Some b"
      and h: "hc (Shape a) (Shape b) False False = Inr h" and s: "Size (OutputShape h) \<noteq> 0"
      and l: "length (OutputOffsets h) \<le> length (LeftOffsets h)"
      and r: "length (OutputOffsets h) \<le> length (RightOffsets h)"
      by simp_all
    have "\<forall>i\<in>set [0..<length (OutputOffsets h)].
            i < length (LeftOffsets h) \<and> i < length (RightOffsets h)
            \<and> i < length (OutputOffsets h)"
      using l r by auto
    from matmul_loop_ok [OF this] show ?thesis
      unfolding Compute_generic_nonempty [where hc = hc, OF a b h s] by simp
  qed
  from registered float full generic plain reads loop show ?thesis by blast
qed

theorem Compute_path_by_element_type_witness:
  "kernel_class 13 float32 = Some T_float \<and> kernel_class 13 float64 = Some T_double
   \<and> kernel_class 13 uint32 = Some T_int32_t \<and> kernel_class 13 int64 = Some T_int64_t
   \<and> kernel_class 8 int32 = None
   \<and> Compute_for 13 float32 spec_helper_Compute doubling_kernel example_ctx
       = Compute_float spec_helper_Compute doubling_kernel example_ctx
   \<and> Compute_for 13 float64 spec_helper_Compute doubling_kernel example_ctx
       = Compute_generic spec_helper_Compute example_ctx
   \<and> Compute_for 13 uint32 spec_helper_Compute doubling_kernel example_ctx
       = Compute_generic spec_helper_Compute example_ctx
   \<and> Input example_ctx 0 = Some example_A \<and> Input example_ctx 1 = Some example_B
   \<and> Compute_generic spec_helper_Compute example_ctx
       = ([Input_Tensor 0, Input_Tensor 1, Helper_Compute [2, 2] [2, 2] False False,
           Output_Tensor 0 [2, 2],
           math_MatMul 2 2 2 (Ptr (Tensor_Buffer 0) 0) (Ptr (Tensor_Buffer 1) 0)
             (Ptr (Tensor_Buffer 2) 0) 0],
          Inr ())"
  using Compute_path_by_element_type
          [where v = 13 and ty = float64 and hc = spec_helper_Compute and this = doubling_kernel
             and ctx = example_ctx and a = example_A and b = example_B
             and h = "\<lparr>helper_M = 2, helper_N = 2, helper_K = 2, OutputShape = [2, 2],
                        LeftOffsets = [0], RightOffsets = [0], OutputOffsets = [0]\<rparr>"]
        Compute_path_by_element_type
          [where v = 13 and ty = uint32 and hc = spec_helper_Compute and this = doubling_kernel
             and ctx = example_ctx and a = example_A and b = example_B
             and h = "\<lparr>helper_M = 2, helper_N = 2, helper_K = 2, OutputShape = [2, 2],
                        LeftOffsets = [0], RightOffsets = [0], OutputOffsets = [0]\<rparr>"]
        Compute_generic_example
  by (simp add: kernel_class_cases example_ctx_def)

end
